theory Spec2Isabelle
  imports Main "HOL-Library.AList"
begin

section \<open>Data model\<close>

text \<open>
  A model class is identified by its name; its metadata (\<open>model._meta\<close>) is looked up
  in the environment. Foreign keys may be cyclic, so a field names its target model
  instead of containing it.
\<close>

type_synonym model = string

datatype error = AttributeError | KeyError | TypeError | FieldDoesNotExist | DatabaseError

datatype backend = Base | MySQL | Oracle

text \<open>\<open>QName\<close> of \<open>django/db/__init__.py\<close>: the named tuple plus its \<open>model\<close> attribute.\<close>

record QName =
  schema :: "string option"
  table :: "string option"
  db_format :: bool
  qmodel :: "model option"

record Rel =
  rel_to :: model
  field_name :: string

text \<open>
  The attributes of a field that the creation code reads. \<open>db_type\<close> is the result of
  \<open>f.db_type(connection=...)\<close> (\<open>None\<close> for a field without a column);
  \<open>db_tablespace\<close> is the empty string when unset.
\<close>

record Field =
  name :: string
  column :: string
  db_column :: "string option"
  fmodel :: model
  db_type :: "string option"
  null_f :: bool
  empty_strings_allowed :: bool
  primary_key :: bool
  unique :: bool
  db_index :: bool
  db_tablespace :: string
  rel :: "Rel option"

text \<open>
  \<open>model._meta\<close>. \<open>get_field\<close> is the lookup of \<open>Options.get_field\<close>, whose code is
  not part of the sources: \<open>None\<close> stands for its \<open>FieldDoesNotExist\<close>.
\<close>

record Options =
  db_table :: string
  db_schema :: "string option"
  managed :: bool
  proxy :: bool
  local_fields :: "Field list"
  get_field :: "string \<Rightarrow> Field option"
  unique_together :: "string list list"
  opts_db_tablespace :: string
  has_auto_field :: bool
  auto_field :: "Field option"

record Style =
  SQL_KEYWORD :: "string \<Rightarrow> string"
  SQL_TABLE :: "string \<Rightarrow> string"
  SQL_FIELD :: "string \<Rightarrow> string"
  SQL_COLTYPE :: "string \<Rightarrow> string"

definition no_style :: Style where
  "no_style = \<lparr>SQL_KEYWORD = (\<lambda>s. s), SQL_TABLE = (\<lambda>s. s), SQL_FIELD = (\<lambda>s. s),
     SQL_COLTYPE = (\<lambda>s. s)\<rparr>"

text \<open>
  What the code takes from outside the sources: the model registry, Python's builtin
  \<open>hash\<close> on a tuple of strings, and \<open>django.db.backends.util.truncate_name\<close>.
\<close>

record world =
  meta :: "model \<Rightarrow> Options"
  hash :: "string list \<Rightarrow> int"
  truncate_name :: "string \<Rightarrow> nat option \<Rightarrow> string"

text \<open>
  The connection. Its mutable state is \<open>settings_dict\<close> (a value may be \<open>None\<close>), the
  open database session with the user it was authenticated as (\<open>None\<close> when closed) and
  the log of the statements issued, each with the user of the session that ran it.
  The other fields are the capabilities of \<open>connection\<close>, \<open>connection.ops\<close>,
  \<open>connection.features\<close> and \<open>connection.introspection\<close> whose code is not part of the
  sources; \<open>qualified_name\<close> and \<open>convert_schema\<close> may read the settings.
  \<open>connect_ok\<close> and \<open>db_accepts\<close> say whether the database accepts a login with the given
  settings and a statement after the given log.
\<close>

record connection =
  settings_dict :: "string \<rightharpoonup> string option"
  session :: "string option option"
  executed :: "(string option \<times> string) list"
  conn_schema :: "string option"
  qualified_name_impl :: "(string \<rightharpoonup> string option) \<Rightarrow> model \<Rightarrow> QName"
  convert_schema_impl :: "(string \<rightharpoonup> string option) \<Rightarrow> string option \<Rightarrow> string option"
  qname_converter_impl :: "QName \<Rightarrow> bool \<Rightarrow> QName"
  quote_name :: "string \<Rightarrow> string"
  compose_qualified_name :: "QName \<Rightarrow> string"
  max_name_length :: "nat option"
  deferrable_sql :: string
  drop_foreignkey_sql :: string
  tablespace_sql :: "string \<Rightarrow> bool \<Rightarrow> string"
  autoinc_sql :: "QName \<Rightarrow> string \<Rightarrow> string list"
  drop_sequence_sql :: "string \<Rightarrow> string"
  interprets_empty_strings_as_nulls :: bool
  connect_ok :: "(string \<rightharpoonup> string option) \<Rightarrow> bool"
  db_accepts :: "(string option \<times> string) list \<Rightarrow> string option \<Rightarrow> string \<Rightarrow> bool"

definition qualified_name :: "connection \<Rightarrow> model \<Rightarrow> QName" where
  "qualified_name c m = qualified_name_impl c (settings_dict c) m"

definition convert_schema :: "connection \<Rightarrow> string option \<Rightarrow> string option" where
  "convert_schema c s = convert_schema_impl c (settings_dict c) s"

text \<open>
  A dictionary keyed by models is an association list: \<open>k in d\<close> is \<open>k \<in> fst ` set d\<close>,
  \<open>d[k]\<close> is \<open>map_of d k\<close>, \<open>del d[k]\<close> is \<open>AList.delete k d\<close>, \<open>d[k] = v\<close> is
  \<open>AList.update k v d\<close>, and \<open>d.items()\<close> is the list itself.
\<close>

type_synonym refs = "(model \<times> Field) list"

type_synonym pending = "(model \<times> refs) list"

section \<open>Python helpers\<close>

definition ebind :: "error + 'a \<Rightarrow> ('a \<Rightarrow> error + 'b) \<Rightarrow> error + 'b" where
  "ebind m f = (case m of Inl e \<Rightarrow> Inl e | Inr x \<Rightarrow> f x)"

text \<open>Truth value of a string or \<open>None\<close>.\<close>

definition truthy :: "string option \<Rightarrow> bool" where
  "truthy s = (case s of None \<Rightarrow> False | Some x \<Rightarrow> x \<noteq> [])"

text \<open>\<open>'%s' % s\<close> for a string or \<open>None\<close>.\<close>

definition str_of :: "string option \<Rightarrow> string" where
  "str_of s = (case s of None \<Rightarrow> ''None'' | Some x \<Rightarrow> x)"

fun join :: "string \<Rightarrow> string list \<Rightarrow> string" where
  "join sep [] = []"
| "join sep [x] = x"
| "join sep (x # y # ys) = x @ sep @ join sep (y # ys)"

definition hex_digit :: "nat \<Rightarrow> char" where
  "hex_digit d = (''0123456789abcdef'') ! d"

text \<open>\<open>'%x' % n\<close> for a non-negative integer.\<close>

function to_hex :: "nat \<Rightarrow> string" where
  "to_hex n = (if n < 16 then [hex_digit n] else to_hex (n div 16) @ [hex_digit (n mod 16)])"
  by pat_completeness auto
termination
  by (relation "measure (\<lambda>n. n)") auto

declare to_hex.simps [simp del]

text \<open>\<open>s\<close> is the set as a list without duplicates; \<open>s.add(x)\<close>.\<close>

definition set_add :: "'a \<Rightarrow> 'a list \<Rightarrow> 'a list" where
  "set_add x s = (if x \<in> set s then s else s @ [x])"

text \<open>\<open>d.setdefault(k, []).append(x)\<close>.\<close>

definition setdefault_append :: "'k \<Rightarrow> 'v \<Rightarrow> ('k \<times> 'v list) list \<Rightarrow> ('k \<times> 'v list) list" where
  "setdefault_append k x d = AList.map_default k [x] (\<lambda>xs. xs @ [x]) d"

section \<open>\<open>BaseDatabaseCreation\<close> (\<open>django/db/backends/creation.py\<close>)\<close>

definition digest :: "world \<Rightarrow> string list \<Rightarrow> string" where
  "digest w args = to_hex (nat (\<bar>hash w args\<bar> mod 4294967296))"

definition base_qualified_name_for_ref :: "connection \<Rightarrow> QName \<Rightarrow> QName \<Rightarrow> string" where
  "base_qualified_name_for_ref c from_table ref_table = compose_qualified_name c ref_table"

text \<open>The override of \<open>django/db/backends/mysql/creation.py\<close>.\<close>

definition mysql_qualified_name_for_ref :: "connection \<Rightarrow> QName \<Rightarrow> QName \<Rightarrow> error + string" where
  "mysql_qualified_name_for_ref c from_table ref_table =
     (let from_qn = qname_converter_impl c from_table False;
          to_qn = qname_converter_impl c ref_table False
      in if schema to_qn = None then
           (case settings_dict c ''NAME'' of
              None \<Rightarrow> Inl KeyError
            | Some n \<Rightarrow>
                Inr (base_qualified_name_for_ref c from_qn
                  \<lparr>schema = n, table = table to_qn, db_format = db_format to_qn, qmodel = None\<rparr>))
         else Inr (base_qualified_name_for_ref c from_qn to_qn))"

fun qualified_name_for_ref :: "backend \<Rightarrow> connection \<Rightarrow> QName \<Rightarrow> QName \<Rightarrow> error + string" where
  "qualified_name_for_ref MySQL c from_table ref_table =
     mysql_qualified_name_for_ref c from_table ref_table"
| "qualified_name_for_ref b c from_table ref_table =
     Inr (base_qualified_name_for_ref c from_table ref_table)"

text \<open>
  \<open>sql_for_inline_foreign_key_references\<close> of the base class; \<open>b\<close> is the class of
  \<open>self\<close>, which decides \<open>self.qualified_name_for_ref\<close>.
\<close>

definition base_sql_for_inline_foreign_key_references ::
  "world \<Rightarrow> backend \<Rightarrow> connection \<Rightarrow> Field \<Rightarrow> model set \<Rightarrow> Style \<Rightarrow> error + (string list \<times> bool)" where
  "base_sql_for_inline_foreign_key_references w b c field known_models style =
     (case rel field of
        None \<Rightarrow> Inl AttributeError
      | Some r \<Rightarrow>
          let from_qname = qualified_name c (fmodel field);
              to_qname = qualified_name c (rel_to r)
          in ebind (qualified_name_for_ref b c from_qname to_qname) (\<lambda>qname.
               if rel_to r \<in> known_models then
                 (case get_field (meta w (rel_to r)) (field_name r) of
                    None \<Rightarrow> Inl FieldDoesNotExist
                  | Some tf \<Rightarrow>
                      Inr ([SQL_KEYWORD style ''REFERENCES'' @ '' '' @ SQL_TABLE style qname @
                            '' ('' @ SQL_FIELD style (quote_name c (column tf)) @ '')'' @
                            deferrable_sql c], False))
               else Inr ([], True)))"

section \<open>Oracle: schema resolution (\<open>django/db/backends/oracle\<close>)\<close>

text \<open>\<open>DatabaseIntrospection.qname_converter\<close> of the Oracle backend.\<close>

definition oracle_qname_converter :: "connection \<Rightarrow> QName \<Rightarrow> bool \<Rightarrow> error + QName" where
  "oracle_qname_converter c qname force_schema =
     (if db_format qname \<and> (truthy (schema qname) \<or> \<not> force_schema) then Inr qname
      else
        let schema' = convert_schema c (schema qname)
        in if \<not> truthy schema' \<and> force_schema then
             (case settings_dict c ''USER'' of
                None \<Rightarrow> Inl KeyError
              | Some u \<Rightarrow>
                  Inr \<lparr>schema = u, table = table qname, db_format = True, qmodel = qmodel qname\<rparr>)
           else
             Inr \<lparr>schema = schema', table = table qname, db_format = True,
                  qmodel = qmodel qname\<rparr>)"

definition needs_separate_conn :: "connection \<Rightarrow> QName \<Rightarrow> QName \<Rightarrow> error + bool" where
  "needs_separate_conn c from_qname to_qname =
     ebind (oracle_qname_converter c
              \<lparr>schema = None, table = None, db_format = False, qmodel = None\<rparr> True) (\<lambda>d.
       let def_schema = schema d
       in ebind (oracle_qname_converter c from_qname True) (\<lambda>from_qname'.
            ebind (oracle_qname_converter c to_qname True) (\<lambda>to_qname'.
              Inr (def_schema \<noteq> schema from_qname' \<or> schema to_qname' \<noteq> schema from_qname'))))"

definition oracle_sql_for_inline_foreign_key_references ::
  "world \<Rightarrow> connection \<Rightarrow> Field \<Rightarrow> model set \<Rightarrow> Style \<Rightarrow> error + (string list \<times> bool)" where
  "oracle_sql_for_inline_foreign_key_references w c field known_models style =
     (case rel field of
        None \<Rightarrow> Inl AttributeError
      | Some r \<Rightarrow>
          ebind (needs_separate_conn c (qualified_name c (fmodel field))
                   (qualified_name c (rel_to r))) (\<lambda>separate.
            if separate then Inr ([], True)
            else base_sql_for_inline_foreign_key_references w Oracle c field known_models style))"

text \<open>The override of the MySQL backend: "All inline references are pending under MySQL".\<close>

definition mysql_sql_for_inline_foreign_key_references ::
  "Field \<Rightarrow> model set \<Rightarrow> Style \<Rightarrow> error + (string list \<times> bool)" where
  "mysql_sql_for_inline_foreign_key_references field known_models style = Inr ([], True)"

text \<open>\<open>self.sql_for_inline_foreign_key_references\<close>, by the class of \<open>self\<close>.\<close>

fun sql_for_inline_foreign_key_references ::
  "world \<Rightarrow> backend \<Rightarrow> connection \<Rightarrow> Field \<Rightarrow> model set \<Rightarrow> Style \<Rightarrow> error + (string list \<times> bool)" where
  "sql_for_inline_foreign_key_references w Base c field known_models style =
     base_sql_for_inline_foreign_key_references w Base c field known_models style"
| "sql_for_inline_foreign_key_references w MySQL c field known_models style =
     mysql_sql_for_inline_foreign_key_references field known_models style"
| "sql_for_inline_foreign_key_references w Oracle c field known_models style =
     oracle_sql_for_inline_foreign_key_references w c field known_models style"

section \<open>\<open>sql_create_model\<close>\<close>

text \<open>
  The column definition of one field (\<open>field_output\<close> before the foreign-key part):
  name, type, \<open>NOT NULL\<close>, \<open>PRIMARY KEY\<close> or \<open>UNIQUE\<close>, inline tablespace.
\<close>

definition field_definition :: "connection \<Rightarrow> Style \<Rightarrow> Options \<Rightarrow> Field \<Rightarrow> string \<Rightarrow> string list" where
  "field_definition c style opts f col_type =
     (let tablespace = (if db_tablespace f \<noteq> [] then db_tablespace f else opts_db_tablespace opts);
          field_output = [SQL_FIELD style (quote_name c (column f)), SQL_COLTYPE style col_type];
          null = (if empty_strings_allowed f \<and> \<not> primary_key f \<and>
                     interprets_empty_strings_as_nulls c then True else null_f f);
          field_output = (if \<not> null then field_output @ [SQL_KEYWORD style ''NOT NULL'']
                          else field_output);
          field_output = (if primary_key f then field_output @ [SQL_KEYWORD style ''PRIMARY KEY'']
                          else if unique f then field_output @ [SQL_KEYWORD style ''UNIQUE'']
                          else field_output)
      in if tablespace \<noteq> [] \<and> unique f then
           (let tablespace_sql' = tablespace_sql c tablespace True
            in if tablespace_sql' \<noteq> [] then field_output @ [tablespace_sql'] else field_output)
         else field_output)"

text \<open>
  The loop over \<open>opts.local_fields\<close>, with \<open>table_output\<close> and \<open>pending_references\<close> as
  accumulators.
\<close>

fun create_fields ::
  "world \<Rightarrow> backend \<Rightarrow> connection \<Rightarrow> model \<Rightarrow> Style \<Rightarrow> model set \<Rightarrow> Field list \<Rightarrow>
   string list \<Rightarrow> pending \<Rightarrow> error + (string list \<times> pending)" where
  "create_fields w b c model style known_models [] table_output pending_references =
     Inr (table_output, pending_references)"
| "create_fields w b c model style known_models (f # fs) table_output pending_references =
     (case db_type f of
        None \<Rightarrow> create_fields w b c model style known_models fs table_output pending_references
      | Some col_type \<Rightarrow>
          let field_output = field_definition c style (meta w model) f col_type
          in (case rel f of
                None \<Rightarrow>
                  create_fields w b c model style known_models fs
                    (table_output @ [join '' '' field_output]) pending_references
              | Some r \<Rightarrow>
                  ebind (sql_for_inline_foreign_key_references w b c f known_models style)
                    (\<lambda>(ref_output, pending).
                       if pending then
                         create_fields w b c model style known_models fs
                           (table_output @ [join '' '' field_output])
                           (setdefault_append (rel_to r) (model, f) pending_references)
                       else
                         create_fields w b c model style known_models fs
                           (table_output @ [join '' '' (field_output @ ref_output)])
                           pending_references)))"

text \<open>\<open>[style.SQL_FIELD(qn(opts.get_field(f).column)) for f in field_constraints]\<close>.\<close>

fun unique_columns :: "connection \<Rightarrow> Style \<Rightarrow> Options \<Rightarrow> string list \<Rightarrow> error + string list" where
  "unique_columns c style opts [] = Inr []"
| "unique_columns c style opts (f # fs) =
     (case get_field opts f of
        None \<Rightarrow> Inl FieldDoesNotExist
      | Some fld \<Rightarrow>
          ebind (unique_columns c style opts fs) (\<lambda>rest.
            Inr (SQL_FIELD style (quote_name c (column fld)) # rest)))"

text \<open>The loop over \<open>opts.unique_together\<close>.\<close>

fun create_unique_together ::
  "connection \<Rightarrow> Style \<Rightarrow> Options \<Rightarrow> string list list \<Rightarrow> string list \<Rightarrow> error + string list" where
  "create_unique_together c style opts [] table_output = Inr table_output"
| "create_unique_together c style opts (field_constraints # rest) table_output =
     ebind (unique_columns c style opts field_constraints) (\<lambda>cols.
       create_unique_together c style opts rest
         (table_output @ [SQL_KEYWORD style ''UNIQUE'' @ '' ('' @ join '', '' cols @ '')'']))"

text \<open>"Combine and add commas": every line but the last gets a comma.\<close>

fun combine_lines :: "string list \<Rightarrow> string list" where
  "combine_lines [] = []"
| "combine_lines [line] = [''    '' @ line]"
| "combine_lines (line # lines) = (''    '' @ line @ '','') # combine_lines lines"

definition sql_create_model ::
  "world \<Rightarrow> backend \<Rightarrow> connection \<Rightarrow> model \<Rightarrow> Style \<Rightarrow> model set \<Rightarrow> error + (string list \<times> pending)" where
  "sql_create_model w b c model style known_models =
     (let opts = meta w model
      in if \<not> managed opts \<or> proxy opts then Inr ([], [])
         else
           let qname = qualified_name c model
           in ebind (create_fields w b c model style known_models (local_fields opts) [] [])
                (\<lambda>(table_output, pending_references).
              ebind (create_unique_together c style opts (unique_together opts) table_output)
                (\<lambda>table_output.
                 let full_statement =
                       [SQL_KEYWORD style ''CREATE TABLE'' @ '' '' @
                        SQL_TABLE style (compose_qualified_name c qname) @ '' (''] @
                       combine_lines table_output @ ['')''];
                     full_statement =
                       (if opts_db_tablespace opts \<noteq> [] then
                          (let tablespace_sql' = tablespace_sql c (opts_db_tablespace opts) False
                           in if tablespace_sql' \<noteq> [] then full_statement @ [tablespace_sql']
                              else full_statement)
                        else full_statement);
                     full_statement = full_statement @ ['';''];
                     final_output = [join [CHR 0x0A] full_statement]
                 in if has_auto_field opts then
                      (case auto_field opts of
                         None \<Rightarrow> Inl AttributeError
                       | Some af \<Rightarrow>
                           let auto_column =
                                 (case db_column af of
                                    None \<Rightarrow> name af
                                  | Some dc \<Rightarrow> if dc \<noteq> [] then dc else name af)
                           in Inr (final_output @ autoinc_sql c qname auto_column,
                                   pending_references))
                    else Inr (final_output, pending_references))))"

section \<open>\<open>sql_for_pending_references\<close>\<close>

text \<open>
  The body of the loop over \<open>pending_references[model]\<close>: the \<open>ALTER TABLE\<close> statement
  for one entry \<open>(rel_class, f)\<close>.
\<close>

definition pending_statement ::
  "world \<Rightarrow> backend \<Rightarrow> connection \<Rightarrow> model \<Rightarrow> Style \<Rightarrow> model \<times> Field \<Rightarrow> error + string" where
  "pending_statement w b c model style ref =
     (case ref of (rel_class, f) \<Rightarrow>
        let opts = meta w model;
            table = db_table opts;
            qname = qualified_name c model;
            r_col = column f;
            r_table = db_table (meta w rel_class);
            r_qname = qualified_name c rel_class
        in ebind (qualified_name_for_ref b c qname r_qname) (\<lambda>r_qname.
             (case rel f of
                None \<Rightarrow> Inl AttributeError
              | Some r \<Rightarrow>
                  (case get_field opts (field_name r) of
                     None \<Rightarrow> Inl FieldDoesNotExist
                   | Some tf \<Rightarrow>
                       let col = column tf;
                           r_name = r_col @ ''_refs_'' @ col @ ''_'' @ digest w [r_table, table]
                       in Inr (SQL_KEYWORD style ''ALTER TABLE'' @ '' '' @ r_qname @
                               '' ADD CONSTRAINT '' @
                               quote_name c (truncate_name w r_name (max_name_length c)) @
                               '' FOREIGN KEY ('' @ quote_name c r_col @ '') REFERENCES '' @
                               compose_qualified_name c qname @ '' ('' @ quote_name c col @
                               '')'' @ deferrable_sql c @ '';'')))))"

fun pending_statements ::
  "world \<Rightarrow> backend \<Rightarrow> connection \<Rightarrow> model \<Rightarrow> Style \<Rightarrow> refs \<Rightarrow> error + string list" where
  "pending_statements w b c model style [] = Inr []"
| "pending_statements w b c model style (ref # rest) =
     ebind (pending_statement w b c model style ref) (\<lambda>stmt.
       ebind (pending_statements w b c model style rest) (\<lambda>stmts. Inr (stmt # stmts)))"

text \<open>
  \<open>BaseDatabaseCreation.sql_for_pending_references\<close>. The dictionary is changed in
  place, so it is returned with the statements.
\<close>

definition base_sql_for_pending_references ::
  "world \<Rightarrow> backend \<Rightarrow> connection \<Rightarrow> model \<Rightarrow> Style \<Rightarrow> pending \<Rightarrow> error + (string list \<times> pending)" where
  "base_sql_for_pending_references w b c model style pending_references =
     (if \<not> managed (meta w model) \<or> proxy (meta w model) then
        (if model \<in> fst ` set pending_references
         then Inr ([], AList.delete model pending_references)
         else Inr ([], pending_references))
      else
        (case map_of pending_references model of
           Some entries \<Rightarrow>
             ebind (pending_statements w b c model style entries) (\<lambda>final_output.
               Inr (final_output, AList.delete model pending_references))
         | None \<Rightarrow> Inr ([], pending_references)))"

section \<open>Indexes\<close>

definition base_qualified_index_name :: "world \<Rightarrow> connection \<Rightarrow> model \<Rightarrow> string \<Rightarrow> string" where
  "base_qualified_index_name w c model col =
     (let i_name = db_table (meta w model) @ ''_'' @ digest w [col];
          i_name = truncate_name w i_name (max_name_length c);
          qname = qualified_name c model
      in compose_qualified_name c
           \<lparr>schema = schema qname, table = Some i_name, db_format = False, qmodel = Some model\<rparr>)"

text \<open>
  The override of the MySQL backend. \<open>max_len / 2\<close> is Python 2 integer division and
  fails on \<open>None\<close>; \<open>truncate_name\<close> takes a string.
\<close>

definition mysql_qualified_index_name ::
  "world \<Rightarrow> connection \<Rightarrow> model \<Rightarrow> string \<Rightarrow> error + string" where
  "mysql_qualified_index_name w c model col =
     (let schema' = (if truthy (db_schema (meta w model)) then db_schema (meta w model)
                     else conn_schema c);
          max_len = max_name_length c
      in ebind
           (if truthy schema' then
              (case (convert_schema c schema', max_len) of
                 (Some s, Some n) \<Rightarrow> Inr (truncate_name w s (Some (n div 2)) @ ''_'')
               | _ \<Rightarrow> Inl TypeError)
            else Inr []) (\<lambda>schema_prefix.
           let i_name = schema_prefix @ db_table (meta w model) @ ''_'' @ digest w [col]
           in Inr (quote_name c (truncate_name w i_name max_len))))"

fun qualified_index_name :: "world \<Rightarrow> backend \<Rightarrow> connection \<Rightarrow> model \<Rightarrow> string \<Rightarrow> error + string" where
  "qualified_index_name w MySQL c model col = mysql_qualified_index_name w c model col"
| "qualified_index_name w b c model col = Inr (base_qualified_index_name w c model col)"

definition sql_indexes_for_field ::
  "world \<Rightarrow> backend \<Rightarrow> connection \<Rightarrow> model \<Rightarrow> Field \<Rightarrow> Style \<Rightarrow> error + string list" where
  "sql_indexes_for_field w b c model f style =
     (if db_index f \<and> \<not> unique f then
        let qname = qualified_name c model;
            tablespace = (if db_tablespace f \<noteq> [] then db_tablespace f
                          else opts_db_tablespace (meta w model));
            tablespace_sql' =
              (if tablespace \<noteq> [] then
                 (let ts = tablespace_sql c tablespace False
                  in if ts \<noteq> [] then '' '' @ ts else ts)
               else [])
        in ebind (qualified_index_name w b c model (column f)) (\<lambda>qualified_name'.
             Inr [SQL_KEYWORD style ''CREATE INDEX'' @ '' '' @ SQL_TABLE style qualified_name' @
                  '' '' @ SQL_KEYWORD style ''ON'' @ '' '' @
                  SQL_TABLE style (compose_qualified_name c qname) @ '' '' @
                  ''('' @ SQL_FIELD style (quote_name c (column f)) @ '')'' @
                  tablespace_sql' @ '';''])
      else Inr [])"

fun indexes_for_fields ::
  "world \<Rightarrow> backend \<Rightarrow> connection \<Rightarrow> model \<Rightarrow> Style \<Rightarrow> Field list \<Rightarrow> error + string list" where
  "indexes_for_fields w b c model style [] = Inr []"
| "indexes_for_fields w b c model style (f # fs) =
     ebind (sql_indexes_for_field w b c model f style) (\<lambda>out.
       ebind (indexes_for_fields w b c model style fs) (\<lambda>rest. Inr (out @ rest)))"

definition sql_indexes_for_model ::
  "world \<Rightarrow> backend \<Rightarrow> connection \<Rightarrow> model \<Rightarrow> Style \<Rightarrow> error + string list" where
  "sql_indexes_for_model w b c model style =
     (if \<not> managed (meta w model) \<or> proxy (meta w model) then Inr []
      else indexes_for_fields w b c model style (local_fields (meta w model)))"

section \<open>Dropping tables and constraints\<close>

text \<open>
  The body of the loop of \<open>sql_remove_table_constraints\<close>: the statement that drops the
  constraint of one entry \<open>(rel_class, f)\<close> of \<open>references_to_delete[model]\<close>.
\<close>

definition remove_statement ::
  "world \<Rightarrow> connection \<Rightarrow> model \<Rightarrow> Style \<Rightarrow> model \<times> Field \<Rightarrow> error + string" where
  "remove_statement w c model style ref =
     (case ref of (rel_class, f) \<Rightarrow>
        let table = db_table (meta w rel_class);
            r_qname = qualified_name c rel_class;
            col = column f;
            r_table = db_table (meta w model)
        in (case rel f of
              None \<Rightarrow> Inl AttributeError
            | Some r \<Rightarrow>
                (case get_field (meta w model) (field_name r) of
                   None \<Rightarrow> Inl FieldDoesNotExist
                 | Some tf \<Rightarrow>
                     let r_col = column tf;
                         r_name = col @ ''_refs_'' @ r_col @ ''_'' @ digest w [table, r_table]
                     in Inr (SQL_KEYWORD style ''ALTER TABLE'' @ '' '' @
                             SQL_TABLE style (compose_qualified_name c r_qname) @ '' '' @
                             SQL_KEYWORD style (drop_foreignkey_sql c) @ '' '' @
                             SQL_FIELD style
                               (quote_name c (truncate_name w r_name (max_name_length c))) @
                             '';''))))"

fun remove_statements ::
  "world \<Rightarrow> connection \<Rightarrow> model \<Rightarrow> Style \<Rightarrow> refs \<Rightarrow> error + string list" where
  "remove_statements w c model style [] = Inr []"
| "remove_statements w c model style (ref # rest) =
     ebind (remove_statement w c model style ref) (\<lambda>stmt.
       ebind (remove_statements w c model style rest) (\<lambda>stmts. Inr (stmt # stmts)))"

text \<open>\<open>references_to_delete[model]\<close> raises \<open>KeyError\<close> on a missing key.\<close>

definition sql_remove_table_constraints ::
  "world \<Rightarrow> connection \<Rightarrow> model \<Rightarrow> pending \<Rightarrow> Style \<Rightarrow> error + (string list \<times> pending)" where
  "sql_remove_table_constraints w c model references_to_delete style =
     (if \<not> managed (meta w model) \<or> proxy (meta w model) then Inr ([], references_to_delete)
      else
        (case map_of references_to_delete model of
           None \<Rightarrow> Inl KeyError
         | Some entries \<Rightarrow>
             ebind (remove_statements w c model style entries) (\<lambda>output.
               Inr (output, AList.delete model references_to_delete))))"

definition sql_destroy_model ::
  "world \<Rightarrow> connection \<Rightarrow> model \<Rightarrow> pending \<Rightarrow> Style \<Rightarrow> error + (string list \<times> pending)" where
  "sql_destroy_model w c model references_to_delete style =
     (if \<not> managed (meta w model) \<or> proxy (meta w model) then Inr ([], references_to_delete)
      else
        let qname = qualified_name c model;
            output = [SQL_KEYWORD style ''DROP TABLE'' @ '' '' @
                      SQL_TABLE style (compose_qualified_name c qname) @ '';'']
        in ebind
             (if model \<in> fst ` set references_to_delete then
                ebind (sql_remove_table_constraints w c model references_to_delete style)
                  (\<lambda>(constraints, references_to_delete').
                     Inr (output @ constraints, references_to_delete'))
              else Inr (output, references_to_delete))
             (\<lambda>(output, references_to_delete').
                if has_auto_field (meta w model) then
                  (let ds = drop_sequence_sql c (compose_qualified_name c qname)
                   in if ds \<noteq> [] then Inr (output @ [ds], references_to_delete')
                      else Inr (output, references_to_delete'))
                else Inr (output, references_to_delete')))"

section \<open>Oracle: pending references in two passes (\<open>django/db/backends/oracle/creation.py\<close>)\<close>

text \<open>
  Attribute lookup on the creation object for an attribute that holds a connection:
  \<open>__init__\<close> sets \<open>self.connection\<close> and nothing else, so any other name raises
  \<open>AttributeError\<close>.
\<close>

definition creation_getattr :: "connection \<Rightarrow> string \<Rightarrow> error + connection" where
  "creation_getattr c attr = (if attr = ''connection'' then Inr c else Inl AttributeError)"

text \<open>
  The loop that splits \<open>pending_references[model]\<close> into \<open>cross_schema_refs\<close> and
  \<open>single_schema_refs\<close>. The first argument of \<open>needs_separate_conn\<close> is read from
  \<open>self.connectino\<close>, as the source spells it.
\<close>

fun split_references ::
  "connection \<Rightarrow> model \<Rightarrow> refs \<Rightarrow> refs \<Rightarrow> refs \<Rightarrow> error + (refs \<times> refs)" where
  "split_references c model [] cross_schema_refs single_schema_refs =
     Inr (cross_schema_refs, single_schema_refs)"
| "split_references c model ((rel_class, f) # rest) cross_schema_refs single_schema_refs =
     ebind (creation_getattr c ''connectino'') (\<lambda>c'.
       ebind (needs_separate_conn c (qualified_name c' rel_class) (qualified_name c model))
         (\<lambda>separate.
            if separate then
              split_references c model rest (cross_schema_refs @ [(rel_class, f)])
                single_schema_refs
            else
              split_references c model rest cross_schema_refs
                (single_schema_refs @ [(rel_class, f)])))"

definition oracle_sql_for_pending_references ::
  "world \<Rightarrow> connection \<Rightarrow> model \<Rightarrow> Style \<Rightarrow> pending \<Rightarrow> bool \<Rightarrow> error + (string list \<times> pending)" where
  "oracle_sql_for_pending_references w c model style pending_references second_pass =
     (if second_pass then
        base_sql_for_pending_references w Oracle c model style pending_references
      else
        ebind (case map_of pending_references model of
                 None \<Rightarrow> Inr ([], [])
               | Some entries \<Rightarrow> split_references c model entries [] [])
          (\<lambda>(cross_schema_refs, single_schema_refs).
             ebind (if single_schema_refs \<noteq> [] then
                      base_sql_for_pending_references w Oracle c model style
                        (AList.update model single_schema_refs pending_references)
                    else Inr ([], pending_references))
               (\<lambda>(sql, pending_references').
                  if cross_schema_refs \<noteq> [] then
                    Inr (sql, AList.update model cross_schema_refs pending_references')
                  else Inr (sql, pending_references'))))"

text \<open>\<open>self.sql_for_pending_references(model, style, pending_references)\<close>, by the class of \<open>self\<close>.\<close>

fun sql_for_pending_references ::
  "world \<Rightarrow> backend \<Rightarrow> connection \<Rightarrow> model \<Rightarrow> Style \<Rightarrow> pending \<Rightarrow> error + (string list \<times> pending)" where
  "sql_for_pending_references w Oracle c model style pending_references =
     oracle_sql_for_pending_references w c model style pending_references False"
| "sql_for_pending_references w b c model style pending_references =
     base_sql_for_pending_references w b c model style pending_references"

subsection \<open>The connection capability\<close>

text \<open>
  The connection's \<open>close\<close>, \<open>cursor\<close> and \<open>cursor.execute\<close> are not part of the
  sources. The specification has a connection opened with the credential in its
  settings, used, and closed, and a failing statement propagate immediately.
\<close>

text \<open>Modelled from the spec: \<open>connection.close()\<close> ends the session.\<close>

definition close :: "connection \<Rightarrow> connection" where
  "close c = c\<lparr>session := None\<rparr>"

text \<open>
  Modelled from the spec: \<open>connection.cursor()\<close> logs in as \<open>settings_dict['USER']\<close> when
  no session is open, which the database may refuse, and reuses the open session
  otherwise.
\<close>

definition cursor :: "connection \<Rightarrow> (error + unit) \<times> connection" where
  "cursor c =
     (case session c of
        Some u \<Rightarrow> (Inr (), c)
      | None \<Rightarrow>
          (case settings_dict c ''USER'' of
             None \<Rightarrow> (Inl KeyError, c)
           | Some u \<Rightarrow>
               if connect_ok c (settings_dict c) then (Inr (), c\<lparr>session := Some u\<rparr>)
               else (Inl DatabaseError, c)))"

text \<open>
  Modelled from the spec: \<open>cursor.execute(q)\<close> issues the statement in the open session,
  which records it with the session's user, and raises when the database rejects it.
\<close>

definition execute :: "string \<Rightarrow> connection \<Rightarrow> (error + unit) \<times> connection" where
  "execute q c =
     (case session c of
        None \<Rightarrow> (Inl DatabaseError, c)
      | Some u \<Rightarrow>
          if db_accepts c (executed c) u q
          then (Inr (), c\<lparr>executed := executed c @ [(u, q)]\<rparr>)
          else (Inl DatabaseError, c\<lparr>executed := executed c @ [(u, q)]\<rparr>))"

text \<open>\<open>for q in sql: cursor.execute(q)\<close>.\<close>

fun execute_all :: "string list \<Rightarrow> connection \<Rightarrow> (error + unit) \<times> connection" where
  "execute_all [] c = (Inr (), c)"
| "execute_all (q # qs) c =
     (case execute q c of
        (Inl e, c') \<Rightarrow> (Inl e, c')
      | (Inr u, c') \<Rightarrow> execute_all qs c')"

subsection \<open>\<open>_run_sql_as_user\<close>, \<open>_grant_references\<close>, \<open>post_create_pending_references\<close>\<close>

text \<open>
  \<open>_run_sql_as_user\<close>: the \<open>try\<close> block is the login and the statements, the \<open>finally\<close>
  block runs after it whether it raised or not, and the exception (if any) is the result.
  \<open>old_settings\<close> is the copy of the dictionary taken before \<open>USER\<close> is changed; the
  connection's \<open>settings_dict\<close> is bound to it at the end.
\<close>

definition run_sql_as_user ::
  "string option \<Rightarrow> string list \<Rightarrow> connection \<Rightarrow> (error + unit) \<times> connection" where
  "run_sql_as_user user sql c =
     (if sql = [] then (Inr (), c)
      else
        let c = close c;
            old_settings = settings_dict c;
            c = c\<lparr>settings_dict := (settings_dict c)(''USER'' \<mapsto> user)\<rparr>;
            (r, c) = (case cursor c of
                        (Inl e, c') \<Rightarrow> (Inl e, c')
                      | (Inr u, c') \<Rightarrow> execute_all sql c');
            c = close c
        in (r, c\<lparr>settings_dict := old_settings\<rparr>))"

text \<open>\<open>'-- Connect as user "%s"' % schema\<close>.\<close>

definition connect_comment :: "string option \<Rightarrow> string" where
  "connect_comment s = ''-- Connect as user '' @ [CHR 0x22] @ str_of s @ [CHR 0x22]"

text \<open>
  The loop of \<open>_grant_references\<close> over the set \<open>grant_to\<close>. \<open>quote_name\<close> takes a string:
  a user that is \<open>None\<close> raises.
\<close>

fun grant_statements ::
  "world \<Rightarrow> connection \<Rightarrow> (model \<times> string option) list \<Rightarrow> error + string list" where
  "grant_statements w c [] = Inr []"
| "grant_statements w c ((model, user) # rest) =
     (case user of
        None \<Rightarrow> Inl TypeError
      | Some u \<Rightarrow>
          ebind (grant_statements w c rest) (\<lambda>stmts.
            Inr ((''GRANT REFERENCES ON '' @ quote_name c (db_table (meta w model)) @ '' TO '' @
                  quote_name c u) # stmts)))"

definition grant_references ::
  "world \<Rightarrow> string option \<Rightarrow> (model \<times> string option) list \<Rightarrow> bool \<Rightarrow> connection \<Rightarrow>
   (error + string list) \<times> connection" where
  "grant_references w schema' grant_to as_sql c =
     (case grant_statements w c grant_to of
        Inl e \<Rightarrow> (Inl e, c)
      | Inr stmts \<Rightarrow>
          let sql = (if as_sql then [connect_comment schema'] else []) @ stmts
          in if \<not> as_sql then
               (case run_sql_as_user schema' sql c of
                  (Inl e, c') \<Rightarrow> (Inl e, c')
                | (Inr u, c') \<Rightarrow> (Inr sql, c'))
             else (Inr sql, c))"

text \<open>The schema a model resolves to: \<open>conv(self.connection.qualified_name(model), force_schema=True).schema\<close>.\<close>

definition resolved_schema :: "connection \<Rightarrow> model \<Rightarrow> error + string option" where
  "resolved_schema c model =
     ebind (oracle_qname_converter c (qualified_name c model) True) (\<lambda>q. Inr (schema q))"

text \<open>"Build a dictionary: from_schema -> [(model, refs)...]".\<close>

fun references_to_schema ::
  "connection \<Rightarrow> pending \<Rightarrow> (string option \<times> (model \<times> refs) list) list \<Rightarrow>
   error + (string option \<times> (model \<times> refs) list) list" where
  "references_to_schema c [] acc = Inr acc"
| "references_to_schema c ((model, refs) # rest) acc =
     ebind (resolved_schema c model) (\<lambda>schema'.
       references_to_schema c rest (setdefault_append schema' (model, refs) acc))"

text \<open>Pass 1, the two inner loops that fill the set \<open>grant_to\<close>.\<close>

fun grant_to_refs ::
  "connection \<Rightarrow> string option \<Rightarrow> model \<Rightarrow> refs \<Rightarrow> (model \<times> string option) list \<Rightarrow>
   error + (model \<times> string option) list" where
  "grant_to_refs c schema' model [] grant_to = Inr grant_to"
| "grant_to_refs c schema' model (ref # rest) grant_to =
     ebind (resolved_schema c (fst ref)) (\<lambda>to_user.
       grant_to_refs c schema' model rest
         (if to_user \<noteq> schema' then set_add (model, to_user) grant_to else grant_to))"

fun grant_to_all ::
  "connection \<Rightarrow> string option \<Rightarrow> (model \<times> refs) list \<Rightarrow> (model \<times> string option) list \<Rightarrow>
   error + (model \<times> string option) list" where
  "grant_to_all c schema' [] grant_to = Inr grant_to"
| "grant_to_all c schema' ((model, refs) # rest) grant_to =
     ebind (grant_to_refs c schema' model refs grant_to) (\<lambda>grant_to'.
       grant_to_all c schema' rest grant_to')"

text \<open>"Pass 1: give grants."\<close>

fun pass1 ::
  "world \<Rightarrow> bool \<Rightarrow> (string option \<times> (model \<times> refs) list) list \<Rightarrow> string list \<Rightarrow> connection \<Rightarrow>
   (error + string list) \<times> connection" where
  "pass1 w as_sql [] sql c = (Inr sql, c)"
| "pass1 w as_sql ((schema', all_refs) # rest) sql c =
     (case grant_to_all c schema' all_refs [] of
        Inl e \<Rightarrow> (Inl e, c)
      | Inr grant_to \<Rightarrow>
          (case grant_references w schema' grant_to as_sql c of
             (Inl e, c') \<Rightarrow> (Inl e, c')
           | (Inr s, c') \<Rightarrow> pass1 w as_sql rest (sql @ s) c'))"

text \<open>"build a pending_references for each schema separately".\<close>

fun references_from_schema_refs ::
  "connection \<Rightarrow> model \<Rightarrow> refs \<Rightarrow> (string option \<times> pending) list \<Rightarrow>
   error + (string option \<times> pending) list" where
  "references_from_schema_refs c model [] acc = Inr acc"
| "references_from_schema_refs c model (ref # rest) acc =
     ebind (resolved_schema c (fst ref)) (\<lambda>schema'.
       references_from_schema_refs c model rest
         (AList.map_default schema' [(model, [ref])] (setdefault_append model ref) acc))"

fun references_from_schema ::
  "connection \<Rightarrow> pending \<Rightarrow> (string option \<times> pending) list \<Rightarrow>
   error + (string option \<times> pending) list" where
  "references_from_schema c [] acc = Inr acc"
| "references_from_schema c ((model, refs) # rest) acc =
     ebind (references_from_schema_refs c model refs acc) (\<lambda>acc'.
       references_from_schema c rest acc')"

text \<open>
  Pass 2, the loop over \<open>ref_dict.items()\<close> (a list made before the loop); each call
  removes its key from \<open>ref_dict\<close>.
\<close>

fun pass2_models ::
  "world \<Rightarrow> connection \<Rightarrow> (model \<times> refs) list \<Rightarrow> pending \<Rightarrow> string list \<Rightarrow> error + string list" where
  "pass2_models w c [] ref_dict per_schema_sql = Inr per_schema_sql"
| "pass2_models w c ((model, refs) # rest) ref_dict per_schema_sql =
     ebind (oracle_sql_for_pending_references w c model no_style ref_dict True)
       (\<lambda>(ref_sql, ref_dict'). pass2_models w c rest ref_dict' (per_schema_sql @ ref_sql))"

text \<open>"Pass 2: create the actual references".\<close>

fun pass2 ::
  "world \<Rightarrow> bool \<Rightarrow> (string option \<times> pending) list \<Rightarrow> string list \<Rightarrow> connection \<Rightarrow>
   (error + string list) \<times> connection" where
  "pass2 w as_sql [] sql c = (Inr sql, c)"
| "pass2 w as_sql ((schema', ref_dict) # rest) sql c =
     (case pass2_models w c ref_dict ref_dict
             (if as_sql then [connect_comment schema'] else []) of
        Inl e \<Rightarrow> (Inl e, c)
      | Inr per_schema_sql \<Rightarrow>
          if \<not> as_sql then
            (case run_sql_as_user schema' per_schema_sql c of
               (Inl e, c') \<Rightarrow> (Inl e, c')
             | (Inr u, c') \<Rightarrow> pass2 w as_sql rest (sql @ per_schema_sql) c')
          else pass2 w as_sql rest (sql @ per_schema_sql) c)"

definition post_create_pending_references ::
  "world \<Rightarrow> pending \<Rightarrow> bool \<Rightarrow> connection \<Rightarrow> (error + string list) \<times> connection" where
  "post_create_pending_references w pending_references as_sql c =
     (case references_to_schema c pending_references [] of
        Inl e \<Rightarrow> (Inl e, c)
      | Inr to_schema \<Rightarrow>
          (case pass1 w as_sql to_schema [] c of
             (Inl e, c1) \<Rightarrow> (Inl e, c1)
           | (Inr sql, c1) \<Rightarrow>
               (case references_from_schema c1 pending_references [] of
                  Inl e \<Rightarrow> (Inl e, c1)
                | Inr from_schema \<Rightarrow> pass2 w as_sql from_schema sql c1)))"

section \<open>Example models and connection\<close>

text \<open>
  The models of \<open>tests/modeltests/dbschemas/models.py\<close>: \<open>SameName1\<close> in the default
  schema, \<open>SameName2\<close> in \<open>schema1\<close> and \<open>SameName3\<close> in \<open>schema2\<close>, each pointing to
  \<open>SameName1\<close>; and two more in \<open>schema2\<close>, \<open>Target\<close> (managed) and \<open>Legacy\<close>
  (unmanaged), with \<open>Source\<close> in \<open>schema1\<close> pointing to each of them.
\<close>

definition ex_column :: "model \<Rightarrow> string \<Rightarrow> string \<Rightarrow> string \<Rightarrow> Rel option \<Rightarrow> Field" where
  "ex_column m n col ty r =
     \<lparr>name = n, column = col, db_column = None, fmodel = m, db_type = Some ty, null_f = False,
      empty_strings_allowed = False, primary_key = (n = ''id''), unique = (n = ''id''),
      db_index = (r \<noteq> None), db_tablespace = [], rel = r\<rparr>"

definition ex_fk :: "model \<Rightarrow> string \<Rightarrow> model \<Rightarrow> Field" where
  "ex_fk m n target =
     ex_column m n (n @ ''_id'') ''integer'' (Some \<lparr>rel_to = target, field_name = ''id''\<rparr>)"

definition ex_fields :: "model \<Rightarrow> Field list" where
  "ex_fields m =
     (if m = ''SameName2'' \<or> m = ''SameName3'' then
        [ex_column m ''id'' ''id'' ''integer'' None, ex_fk m ''fk'' ''SameName1'']
      else if m = ''Source'' then
        [ex_column m ''id'' ''id'' ''integer'' None, ex_fk m ''target'' ''Target'',
         ex_fk m ''legacy'' ''Legacy'']
      else [ex_column m ''id'' ''id'' ''integer'' None])"

definition ex_meta :: "model \<Rightarrow> Options" where
  "ex_meta m =
     \<lparr>db_table = (if m = ''SameName1'' \<or> m = ''SameName2'' \<or> m = ''SameName3'' then ''sn''
                  else if m = ''Source'' then ''src''
                  else if m = ''Target'' then ''tgt''
                  else ''legacy''),
      db_schema = (if m = ''SameName1'' then None
                   else if m = ''SameName2'' \<or> m = ''Source'' then Some ''schema1''
                   else Some ''schema2''),
      managed = (m \<noteq> ''Legacy''),
      proxy = False,
      local_fields = ex_fields m,
      get_field = (\<lambda>n. find (\<lambda>f. name f = n) (ex_fields m)),
      unique_together = [],
      opts_db_tablespace = [],
      has_auto_field = False,
      auto_field = None\<rparr>"

definition ex_world :: world where
  "ex_world =
     \<lparr>meta = ex_meta,
      hash = (\<lambda>args. int (length (concat args)) - 300),
      truncate_name = (\<lambda>s n. case n of None \<Rightarrow> s | Some k \<Rightarrow> take k s)\<rparr>"

definition ex_quote :: "string \<Rightarrow> string" where
  "ex_quote s = [CHR 0x22] @ s @ [CHR 0x22]"

definition ex_compose :: "QName \<Rightarrow> string" where
  "ex_compose q =
     (case schema q of
        None \<Rightarrow> ex_quote (str_of (table q))
      | Some s \<Rightarrow> ex_quote s @ ''.'' @ ex_quote (str_of (table q)))"

text \<open>
  A closed connection of user \<open>scott\<close>; \<open>ok\<close> says whether the database accepts the
  statements it is sent.
\<close>

definition ex_connection :: "bool \<Rightarrow> connection" where
  "ex_connection ok =
     \<lparr>settings_dict = [''USER'' \<mapsto> Some ''scott'', ''NAME'' \<mapsto> Some ''xe''],
      session = None,
      executed = [],
      conn_schema = None,
      qualified_name_impl =
        (\<lambda>settings m. \<lparr>schema = db_schema (ex_meta m), table = Some (db_table (ex_meta m)),
                         db_format = False, qmodel = Some m\<rparr>),
      convert_schema_impl = (\<lambda>settings s. s),
      qname_converter_impl = (\<lambda>q force. q),
      quote_name = ex_quote,
      compose_qualified_name = ex_compose,
      max_name_length = Some 30,
      deferrable_sql = '' DEFERRABLE INITIALLY DEFERRED'',
      drop_foreignkey_sql = ''DROP CONSTRAINT'',
      tablespace_sql = (\<lambda>t inline. []),
      autoinc_sql = (\<lambda>q col. []),
      drop_sequence_sql = (\<lambda>t. []),
      interprets_empty_strings_as_nulls = True,
      connect_ok = (\<lambda>settings. True),
      db_accepts = (\<lambda>log user q. ok)\<rparr>"

section \<open>Notions used to state the claims\<close>

text \<open>
  An entry \<open>(rel_class, f)\<close> of the pending references of \<open>model\<close> is well formed when
  \<open>f\<close> is a relation whose \<open>field_name\<close> names a field of \<open>model\<close>, as the model layer
  sets it up for every foreign key.
\<close>

definition resolves :: "world \<Rightarrow> model \<Rightarrow> model \<times> Field \<Rightarrow> bool" where
  "resolves w model ref =
     (case rel (snd ref) of
        None \<Rightarrow> False
      | Some r \<Rightarrow> get_field (meta w model) (field_name r) \<noteq> None)"

text \<open>The shape \<open>ALTER TABLE ... ADD CONSTRAINT ... FOREIGN KEY (...\<close> of a statement.\<close>

definition is_add_foreign_key :: "Style \<Rightarrow> string \<Rightarrow> bool" where
  "is_add_foreign_key style s =
     (\<exists>t n k. s = SQL_KEYWORD style ''ALTER TABLE'' @ '' '' @ t @ '' ADD CONSTRAINT '' @ n @
                  '' FOREIGN KEY ('' @ k)"

text \<open>
  The constraint name in the words of the specification: referencing column, \<open>_refs_\<close>,
  target column, \<open>_\<close>, the digest of (referencing table, target table), truncated to
  the maximal name length of the backend.
\<close>

definition constraint_name ::
  "world \<Rightarrow> connection \<Rightarrow> string \<Rightarrow> string \<Rightarrow> string \<Rightarrow> string \<Rightarrow> string" where
  "constraint_name w c refcol targetcol refTable thisTable =
     truncate_name w (refcol @ ''_refs_'' @ targetcol @ ''_'' @ digest w [refTable, thisTable])
       (max_name_length c)"

text \<open>\<open>d.get(t, [])\<close>: the entries recorded under the key \<open>t\<close>.\<close>

definition entries_of :: "pending \<Rightarrow> model \<Rightarrow> refs" where
  "entries_of d t = (case map_of d t of None \<Rightarrow> [] | Some l \<Rightarrow> l)"

text \<open>The inline check returned, and reported \<open>pending\<close>.\<close>

definition reported_pending ::
  "world \<Rightarrow> backend \<Rightarrow> connection \<Rightarrow> model set \<Rightarrow> Style \<Rightarrow> Field \<Rightarrow> bool" where
  "reported_pending w b c known_models style f =
     (case sql_for_inline_foreign_key_references w b c f known_models style of
        Inl e \<Rightarrow> False
      | Inr res \<Rightarrow> snd res)"

text \<open>
  The loop of \<open>sql_create_model\<close> runs the inline check on the field \<open>f\<close> (it has a
  column and a relation), the relation points to \<open>t\<close>, and the check reported
  \<open>pending\<close>.
\<close>

definition checked_pending ::
  "world \<Rightarrow> backend \<Rightarrow> connection \<Rightarrow> model set \<Rightarrow> Style \<Rightarrow> model \<Rightarrow> Field \<Rightarrow> bool" where
  "checked_pending w b c known_models style t f =
     (db_type f \<noteq> None \<and> (case rel f of None \<Rightarrow> False | Some r \<Rightarrow> rel_to r = t) \<and>
      reported_pending w b c known_models style f)"

text \<open>
  Metadata on which \<open>sql_create_model\<close> raises nothing on the base backend: the target
  field of every relation to a known model exists, the names in \<open>unique_together\<close> are
  fields of the model, and a model with an auto field has one.
\<close>

definition well_formed_model :: "world \<Rightarrow> model set \<Rightarrow> model \<Rightarrow> bool" where
  "well_formed_model w known_models model =
     (list_all (\<lambda>f. case rel f of
                       None \<Rightarrow> True
                     | Some r \<Rightarrow> rel_to r \<in> known_models \<longrightarrow>
                         get_field (meta w (rel_to r)) (field_name r) \<noteq> None)
        (local_fields (meta w model)) \<and>
      list_all (list_all (\<lambda>n. get_field (meta w model) n \<noteq> None))
        (unique_together (meta w model)) \<and>
      (has_auto_field (meta w model) \<longrightarrow> auto_field (meta w model) \<noteq> None))"

text \<open>
  The column of the field of \<open>model\<close> that the relation of \<open>f\<close> names (empty when \<open>f\<close>
  has no relation or the field does not exist).
\<close>

definition target_column :: "world \<Rightarrow> model \<Rightarrow> Field \<Rightarrow> string" where
  "target_column w model f =
     (case rel f of
        None \<Rightarrow> []
      | Some r \<Rightarrow>
          (case get_field (meta w model) (field_name r) of
             None \<Rightarrow> []
           | Some tf \<Rightarrow> column tf))"

text \<open>
  The constraint name of the specification for the entry \<open>(rel_class, f)\<close> of \<open>model\<close>:
  \<open>rel_class\<close> owns the referencing table and column, \<open>model\<close> the target ones.
\<close>

definition entry_constraint_name :: "world \<Rightarrow> connection \<Rightarrow> model \<Rightarrow> model \<times> Field \<Rightarrow> string" where
  "entry_constraint_name w c model ref =
     constraint_name w c (column (snd ref)) (target_column w model (snd ref))
       (db_table (meta w (fst ref))) (db_table (meta w model))"

section \<open>Basic facts\<close>

lemma ebind_Inr [simp]: "ebind (Inr x) f = f x"
  by (simp add: ebind_def)

lemma ebind_Inl [simp]: "ebind (Inl e) f = Inl e"
  by (simp add: ebind_def)

lemma ex_meta_Legacy: "\<not> managed (meta ex_world ''Legacy'')"
  by (simp add: ex_world_def ex_meta_def)

subsection \<open>What the connection capability may change\<close>

lemma execute_frame: "\<exists>l. snd (execute q c) = c\<lparr>executed := l\<rparr>"
proof (cases "session c")
  case None
  then have "snd (execute q c) = c\<lparr>executed := executed c\<rparr>"
    by (simp add: execute_def)
  then show ?thesis ..
next
  case (Some u)
  then have "snd (execute q c) = c\<lparr>executed := executed c @ [(u, q)]\<rparr>"
    by (simp add: execute_def)
  then show ?thesis ..
qed

lemma execute_all_frame: "\<exists>l. snd (execute_all sql c) = c\<lparr>executed := l\<rparr>"
proof (induction sql arbitrary: c)
  case Nil
  have "snd (execute_all [] c) = c\<lparr>executed := executed c\<rparr>" by simp
  then show ?case ..
next
  case (Cons q qs)
  obtain l1 where l1: "snd (execute q c) = c\<lparr>executed := l1\<rparr>"
    using execute_frame by blast
  obtain r where e: "execute q c = (r, c\<lparr>executed := l1\<rparr>)"
    using l1 by (cases "execute q c") simp
  show ?case
  proof (cases r)
    case (Inl err)
    with e have "snd (execute_all (q # qs) c) = c\<lparr>executed := l1\<rparr>" by simp
    then show ?thesis ..
  next
    case (Inr u)
    obtain l2 where
      "snd (execute_all qs (c\<lparr>executed := l1\<rparr>)) = c\<lparr>executed := l1\<rparr>\<lparr>executed := l2\<rparr>"
      using Cons.IH by blast
    with e Inr have "snd (execute_all (q # qs) c) = c\<lparr>executed := l2\<rparr>" by simp
    then show ?thesis ..
  qed
qed

lemma cursor_frame: "\<exists>s. snd (cursor c) = c\<lparr>session := s\<rparr>"
proof (cases "fst (cursor c)")
  case (Inl e)
  then have "snd (cursor c) = c\<lparr>session := session c\<rparr>"
    by (simp add: cursor_def split: option.splits if_splits)
  then show ?thesis ..
next
  case (Inr u)
  then have "snd (cursor c) = c\<lparr>session := session c\<rparr> \<or>
             snd (cursor c) = c\<lparr>session := Some (the (settings_dict c ''USER''))\<rparr>"
    by (auto simp add: cursor_def split: option.splits if_splits)
  then show ?thesis by blast
qed

text \<open>
  Whatever happens inside, \<open>_run_sql_as_user\<close> with statements to run returns the
  connection closed and with its settings as they were; only the log has changed.
\<close>

lemma run_sql_as_user_frame:
  assumes "sql \<noteq> []"
  shows "\<exists>l. snd (run_sql_as_user user sql c) = c\<lparr>session := None, executed := l\<rparr>"
proof -
  define c2 where
    "c2 = c\<lparr>session := None, settings_dict := (settings_dict c)(''USER'' \<mapsto> user)\<rparr>"
  obtain s where s: "snd (cursor c2) = c2\<lparr>session := s\<rparr>"
    using cursor_frame by blast
  obtain r where cu: "cursor c2 = (r, c2\<lparr>session := s\<rparr>)"
    using s by (cases "cursor c2") simp
  show ?thesis
  proof (cases r)
    case (Inl err)
    with assms cu
    have "snd (run_sql_as_user user sql c) = c\<lparr>session := None, executed := executed c\<rparr>"
      by (simp add: run_sql_as_user_def close_def Let_def c2_def)
    then show ?thesis ..
  next
    case (Inr u)
    obtain l where
      l: "snd (execute_all sql (c2\<lparr>session := s\<rparr>)) = c2\<lparr>session := s\<rparr>\<lparr>executed := l\<rparr>"
      using execute_all_frame by blast
    obtain r' where
      ex: "execute_all sql (c2\<lparr>session := s\<rparr>) = (r', c2\<lparr>session := s\<rparr>\<lparr>executed := l\<rparr>)"
      using l by (cases "execute_all sql (c2\<lparr>session := s\<rparr>)") simp
    from assms cu Inr ex
    have "snd (run_sql_as_user user sql c) = c\<lparr>session := None, executed := l\<rparr>"
      unfolding c2_def by (simp add: run_sql_as_user_def close_def Let_def)
    then show ?thesis ..
  qed
qed

section \<open>The claims\<close>

text \<open>
  C6. On the MySQL backend \<open>sql_for_inline_foreign_key_references\<close> returns the empty
  clause list and \<open>pending = True\<close> for every field, every set of known models and every
  style: no foreign key is written inline, also when the target is already known.
\<close>

theorem mysql_inline_references_always_pending:
  "sql_for_inline_foreign_key_references w MySQL c field known_models style = Inr ([], True)"
  by (simp add: mysql_sql_for_inline_foreign_key_references_def)

text \<open>
  C9. For a model that is unmanaged or a proxy, \<open>sql_create_model\<close> returns no statement
  and an empty dictionary of pending references, \<open>sql_indexes_for_model\<close> returns no
  statement, and \<open>sql_destroy_model\<close> returns no statement (and leaves
  \<open>references_to_delete\<close> as it was), on every backend.
\<close>

theorem unmanaged_or_proxy_no_ddl:
  assumes "\<not> managed (meta w model) \<or> proxy (meta w model)"
  shows "sql_create_model w b c model style known_models = Inr ([], []) \<and>
         sql_indexes_for_model w b c model style = Inr [] \<and>
         sql_destroy_model w c model references_to_delete style =
           Inr ([], references_to_delete)"
  using assms
  by (auto simp add: sql_create_model_def sql_indexes_for_model_def sql_destroy_model_def)

theorem unmanaged_or_proxy_no_ddl_witness:
  "\<not> managed (meta ex_world ''Legacy'') \<and>
   sql_create_model ex_world Oracle (ex_connection True) ''Legacy'' no_style {''SameName1''} =
     Inr ([], []) \<and>
   sql_indexes_for_model ex_world Oracle (ex_connection True) ''Legacy'' no_style = Inr [] \<and>
   sql_destroy_model ex_world (ex_connection True) ''Legacy'' [] no_style = Inr ([], [])"
  using unmanaged_or_proxy_no_ddl [of ex_world "''Legacy''" Oracle "ex_connection True"
      no_style "{''SameName1''}" "[]"]
    ex_meta_Legacy
  by simp

text \<open>
  C8. \<open>_run_sql_as_user(user, sql)\<close> with a non-empty \<open>sql\<close> ends, whether it returns or
  raises (the first component of the result), with the settings dictionary of the
  connection as it was before the call, \<open>USER\<close> included, and with the connection
  closed; nothing but the log of issued statements differs from the connection before
  the call. With an empty \<open>sql\<close> it returns at once and changes nothing.
\<close>

theorem run_sql_as_user_restores_settings:
  "(sql \<noteq> [] \<longrightarrow>
      settings_dict (snd (run_sql_as_user user sql c)) = settings_dict c \<and>
      session (snd (run_sql_as_user user sql c)) = None \<and>
      (\<exists>l. snd (run_sql_as_user user sql c) = c\<lparr>session := None, executed := l\<rparr>)) \<and>
   run_sql_as_user user [] c = (Inr (), c)"
proof -
  have "settings_dict (snd (run_sql_as_user user sql c)) = settings_dict c \<and>
      session (snd (run_sql_as_user user sql c)) = None" if "sql \<noteq> []"
    using run_sql_as_user_frame [OF that, of user c] by auto
  then show ?thesis
    using run_sql_as_user_frame [of sql user c] by (simp add: run_sql_as_user_def)
qed

lemmas ex_simps = ex_world_def ex_meta_def ex_fields_def ex_fk_def ex_column_def
  ex_connection_def ex_quote_def ex_compose_def

theorem run_sql_as_user_restores_settings_witness:
  "fst (run_sql_as_user (Some ''schema1'') [''GRANT REFERENCES ON sn TO schema2'']
          ((ex_connection False)\<lparr>session := Some (Some ''scott'')\<rparr>)) = Inl DatabaseError \<and>
   settings_dict (snd (run_sql_as_user (Some ''schema1'') [''GRANT REFERENCES ON sn TO schema2'']
          ((ex_connection False)\<lparr>session := Some (Some ''scott'')\<rparr>))) ''USER'' =
     Some (Some ''scott'') \<and>
   session (snd (run_sql_as_user (Some ''schema1'') [''GRANT REFERENCES ON sn TO schema2'']
          ((ex_connection False)\<lparr>session := Some (Some ''scott'')\<rparr>))) = None \<and>
   executed (snd (run_sql_as_user (Some ''schema1'') [''GRANT REFERENCES ON sn TO schema2'']
          ((ex_connection False)\<lparr>session := Some (Some ''scott'')\<rparr>))) =
     [(Some ''schema1'', ''GRANT REFERENCES ON sn TO schema2'')] \<and>
   fst (run_sql_as_user (Some ''schema1'') [''GRANT REFERENCES ON sn TO schema2'']
          (ex_connection True)) = Inr () \<and>
   settings_dict (snd (run_sql_as_user (Some ''schema1'') [''GRANT REFERENCES ON sn TO schema2'']
          (ex_connection True))) = settings_dict (ex_connection True) \<and>
   session (snd (run_sql_as_user (Some ''schema1'') [''GRANT REFERENCES ON sn TO schema2'']
          (ex_connection True))) = None"
  using run_sql_as_user_restores_settings [of "[''GRANT REFERENCES ON sn TO schema2'']"
      "Some ''schema1''" "(ex_connection False)\<lparr>session := Some (Some ''scott'')\<rparr>"]
    run_sql_as_user_restores_settings [of "[''GRANT REFERENCES ON sn TO schema2'']"
      "Some ''schema1''" "ex_connection True"]
  by (simp add: run_sql_as_user_def close_def cursor_def execute_def ex_connection_def Let_def)

text \<open>
  C10. When the base \<open>sql_for_pending_references\<close> (what \<open>sql_for_pending_references\<close>
  is on every backend but Oracle, and Oracle's second pass) is called on a model that is
  unmanaged or a proxy, it returns no statement and the dictionary without the model's
  key, whatever the dictionary holds: the entry, if there is one, is dropped without a
  statement and without an error, and the other entries stay.
\<close>

theorem pending_to_unmanaged_discarded:
  assumes "\<not> managed (meta w model) \<or> proxy (meta w model)"
  shows "base_sql_for_pending_references w b c model style pending_references =
           Inr ([], AList.delete model pending_references) \<and>
         model \<notin> fst ` set (AList.delete model pending_references) \<and>
         map_of (AList.delete model pending_references) =
           (map_of pending_references)(model := None) \<and>
         (b \<noteq> Oracle \<longrightarrow>
            sql_for_pending_references w b c model style pending_references =
              Inr ([], AList.delete model pending_references))"
proof -
  have base: "base_sql_for_pending_references w b c model style pending_references =
      Inr ([], AList.delete model pending_references)"
    using assms
    by (auto simp add: base_sql_for_pending_references_def AList.delete_id)
  have "sql_for_pending_references w b c model style pending_references =
      Inr ([], AList.delete model pending_references)" if "b \<noteq> Oracle"
    using that base by (cases b) simp_all
  with base show ?thesis
    by (simp add: AList.delete_conv' AList.delete_notin_dom)
qed

theorem pending_to_unmanaged_discarded_witness:
  "\<not> managed (meta ex_world ''Legacy'') \<and>
   base_sql_for_pending_references ex_world Base (ex_connection True) ''Legacy'' no_style
     [(''Legacy'', [(''Source'', ex_fk ''Source'' ''legacy'' ''Legacy'')]),
      (''Target'', [(''Source'', ex_fk ''Source'' ''target'' ''Target'')])] =
     Inr ([], [(''Target'', [(''Source'', ex_fk ''Source'' ''target'' ''Target'')])])"
  using pending_to_unmanaged_discarded [of ex_world "''Legacy''" Base "ex_connection True"
      no_style
      "[(''Legacy'', [(''Source'', ex_fk ''Source'' ''legacy'' ''Legacy'')]),
        (''Target'', [(''Source'', ex_fk ''Source'' ''target'' ''Target'')])]"]
    ex_meta_Legacy
  by (simp add: AList.delete_eq)

text \<open>
  C3. The claim is that Oracle's \<open>sql_for_pending_references\<close> with
  \<open>second_pass = False\<close> returns normally for a model whose entry is not empty. The code
  does not: the first entry makes it read \<open>self.connectino\<close>, and the call raises
  \<open>AttributeError\<close>, whatever the entry is.
\<close>

theorem oracle_first_pass_raises:
  assumes "map_of pending_references model = Some (ref # rest)"
  shows "sql_for_pending_references w Oracle c model style pending_references =
           Inl AttributeError"
  using assms
  by (cases ref) (simp add: oracle_sql_for_pending_references_def creation_getattr_def)

theorem oracle_first_pass_raises_witness:
  "map_of [(''SameName1'', [(''SameName2'', ex_fk ''SameName2'' ''fk'' ''SameName1'')])]
     ''SameName1'' = Some [(''SameName2'', ex_fk ''SameName2'' ''fk'' ''SameName1'')] \<and>
   sql_for_pending_references ex_world Oracle (ex_connection True) ''SameName1'' no_style
     [(''SameName1'', [(''SameName2'', ex_fk ''SameName2'' ''fk'' ''SameName1'')])] =
     Inl AttributeError"
  using oracle_first_pass_raises
    [of "[(''SameName1'', [(''SameName2'', ex_fk ''SameName2'' ''fk'' ''SameName1'')])]"
      "''SameName1''" "(''SameName2'', ex_fk ''SameName2'' ''fk'' ''SameName1'')" "[]" ex_world
      "ex_connection True" no_style]
  by simp

subsection \<open>Draining the pending references of a model\<close>

lemma pending_statement_resolves:
  assumes "resolves w model ref"
    and "qualified_name_for_ref b c (qualified_name c model) (qualified_name c (fst ref)) = Inr rq"
  shows "\<exists>s. pending_statement w b c model style ref = Inr s \<and> is_add_foreign_key style s"
proof -
  obtain rel_class f where ref: "ref = (rel_class, f)"
    by (cases ref)
  from assms(1) ref obtain r tf where r: "rel f = Some r"
    and tf: "get_field (meta w model) (field_name r) = Some tf"
    by (auto simp add: resolves_def split: option.splits)
  show ?thesis
    using assms(2) ref r tf
    by (simp add: pending_statement_def Let_def is_add_foreign_key_def) blast
qed

lemma pending_statements_resolve:
  assumes "list_all (resolves w model) entries"
    and "b \<noteq> MySQL"
  shows "\<exists>stmts. pending_statements w b c model style entries = Inr stmts \<and>
           length stmts = length entries \<and> list_all (is_add_foreign_key style) stmts"
  using assms(1)
proof (induction entries)
  case Nil
  show ?case by simp
next
  case (Cons ref rest)
  have "\<exists>rq. qualified_name_for_ref b c (qualified_name c model) (qualified_name c (fst ref)) =
          Inr rq"
    using assms(2) by (cases b) auto
  then obtain s where s: "pending_statement w b c model style ref = Inr s"
    and sk: "is_add_foreign_key style s"
    using pending_statement_resolves [of w model ref b c] Cons.prems by auto
  obtain stmts where "pending_statements w b c model style rest = Inr stmts"
    and "length stmts = length rest" and "list_all (is_add_foreign_key style) stmts"
    using Cons by auto
  with s sk show ?case by simp
qed

text \<open>
  C5. On the base backend, for a managed model that is not a proxy:
  when the model is a key of the pending references with the entries \<open>L\<close> (each a
  relation whose target field exists), \<open>sql_for_pending_references\<close> returns exactly
  \<open>length L\<close> statements, each of the form
  \<open>ALTER TABLE ... ADD CONSTRAINT ... FOREIGN KEY (...\<close>, and the dictionary without the
  model's key; when the model is not a key, it returns no statement and the dictionary
  as it was. So a second call after the first returns nothing: an entry is drained once.
\<close>

theorem pending_references_drained_once:
  assumes "managed (meta w model)" and "\<not> proxy (meta w model)"
  shows "(\<forall>entries. map_of pending_references model = Some entries \<and>
            list_all (resolves w model) entries \<longrightarrow>
            (\<exists>stmts. sql_for_pending_references w Base c model style pending_references =
                        Inr (stmts, AList.delete model pending_references) \<and>
                      length stmts = length entries \<and>
                      list_all (is_add_foreign_key style) stmts \<and>
                      model \<notin> fst ` set (AList.delete model pending_references))) \<and>
         (model \<notin> fst ` set pending_references \<longrightarrow>
            sql_for_pending_references w Base c model style pending_references =
              Inr ([], pending_references))"
proof (intro conjI allI impI)
  fix entries
  assume a: "map_of pending_references model = Some entries \<and>
    list_all (resolves w model) entries"
  then obtain stmts where s: "pending_statements w Base c model style entries = Inr stmts"
    and l: "length stmts = length entries" and k: "list_all (is_add_foreign_key style) stmts"
    using pending_statements_resolve [of w model entries Base c style] by auto
  have "sql_for_pending_references w Base c model style pending_references =
          Inr (stmts, AList.delete model pending_references)"
    using assms a s by (simp add: base_sql_for_pending_references_def)
  with l k show "\<exists>stmts. sql_for_pending_references w Base c model style pending_references =
                        Inr (stmts, AList.delete model pending_references) \<and>
                      length stmts = length entries \<and>
                      list_all (is_add_foreign_key style) stmts \<and>
                      model \<notin> fst ` set (AList.delete model pending_references)"
    by (simp add: AList.delete_notin_dom)
next
  assume "model \<notin> fst ` set pending_references"
  then have "map_of pending_references model = None"
    by (simp add: map_of_eq_None_iff)
  with assms show "sql_for_pending_references w Base c model style pending_references =
      Inr ([], pending_references)"
    by (simp add: base_sql_for_pending_references_def)
qed

theorem pending_references_drained_once_witness:
  "managed (meta ex_world ''SameName1'') \<and> \<not> proxy (meta ex_world ''SameName1'') \<and>
   list_all (resolves ex_world ''SameName1'')
     [(''SameName2'', ex_fk ''SameName2'' ''fk'' ''SameName1''),
      (''SameName3'', ex_fk ''SameName3'' ''fk'' ''SameName1'')] \<and>
   (\<exists>stmts. sql_for_pending_references ex_world Base (ex_connection True) ''SameName1'' no_style
       [(''SameName1'', [(''SameName2'', ex_fk ''SameName2'' ''fk'' ''SameName1''),
                         (''SameName3'', ex_fk ''SameName3'' ''fk'' ''SameName1'')])] =
       Inr (stmts, []) \<and> length stmts = 2) \<and>
   sql_for_pending_references ex_world Base (ex_connection True) ''SameName1'' no_style [] =
     Inr ([], [])"
  using pending_references_drained_once [of ex_world "''SameName1''"
      "[(''SameName1'', [(''SameName2'', ex_fk ''SameName2'' ''fk'' ''SameName1''),
                         (''SameName3'', ex_fk ''SameName3'' ''fk'' ''SameName1'')])]"
      "ex_connection True" no_style]
    pending_references_drained_once [of ex_world "''SameName1''" "[]" "ex_connection True"
      no_style]
  by (auto simp add: ex_simps resolves_def)

lemma ex_digest_src_tgt: "digest ex_world [''src'', ''tgt''] = ''126''"
  by code_simp

subsection \<open>Inline references and the pending references of \<open>sql_create_model\<close>\<close>

lemma entries_of_setdefault_append:
  "entries_of (setdefault_append k x d) t =
     (if t = k then entries_of d k @ [x] else entries_of d t)"
  by (simp add: entries_of_def setdefault_append_def map_of_map_default split: option.splits)

lemma create_fields_pending:
  assumes "create_fields w b c model style known_models fs out pr = Inr (out', pr')"
  shows "entries_of pr' t =
           entries_of pr t @ map (Pair model) (filter (checked_pending w b c known_models style t) fs)"
  using assms
proof (induction fs arbitrary: out pr)
  case Nil
  then show ?case by simp
next
  case (Cons f fs)
  show ?case
  proof (cases "db_type f")
    case None
    with Cons show ?thesis by (simp add: checked_pending_def)
  next
    case (Some col_type)
    show ?thesis
    proof (cases "rel f")
      case None
      with Some Cons show ?thesis by (simp add: checked_pending_def Let_def)
    next
      case r: (Some r)
      show ?thesis
      proof (cases "sql_for_inline_foreign_key_references w b c f known_models style")
        case (Inl e)
        with Some r Cons.prems show ?thesis by (simp add: Let_def)
      next
        case (Inr res)
        obtain ref_output pending where res: "res = (ref_output, pending)"
          by (cases res)
        show ?thesis
        proof (cases pending)
          case True
          with Some r Inr res Cons.prems
          have "create_fields w b c model style known_models fs
                  (out @ [join '' '' (field_definition c style (meta w model) f col_type)])
                  (setdefault_append (rel_to r) (model, f) pr) = Inr (out', pr')"
            by (simp add: Let_def)
          from Cons.IH [OF this] Some r Inr res True show ?thesis
            by (simp add: entries_of_setdefault_append checked_pending_def reported_pending_def)
        next
          case False
          with Some r Inr res Cons.prems
          have "create_fields w b c model style known_models fs
                  (out @ [join '' '' (field_definition c style (meta w model) f col_type @ ref_output)])
                  pr = Inr (out', pr')"
            by (simp add: Let_def)
          from Cons.IH [OF this] Some r Inr res False show ?thesis
            by (simp add: checked_pending_def reported_pending_def)
        qed
      qed
    qed
  qed
qed

lemma base_inline_returns:
  assumes "case rel f of None \<Rightarrow> True
           | Some r \<Rightarrow> rel_to r \<in> known_models \<longrightarrow>
               get_field (meta w (rel_to r)) (field_name r) \<noteq> None"
    and "rel f = Some r"
  shows "\<exists>res. sql_for_inline_foreign_key_references w Base c f known_models style = Inr res"
  using assms
  by (auto simp add: base_sql_for_inline_foreign_key_references_def Let_def)

lemma create_fields_returns:
  assumes "list_all (\<lambda>f. case rel f of
                       None \<Rightarrow> True
                     | Some r \<Rightarrow> rel_to r \<in> known_models \<longrightarrow>
                         get_field (meta w (rel_to r)) (field_name r) \<noteq> None) fs"
  shows "\<exists>res. create_fields w Base c model style known_models fs out pr = Inr res"
  using assms
proof (induction fs arbitrary: out pr)
  case Nil
  show ?case by simp
next
  case (Cons f fs)
  show ?case
  proof (cases "db_type f")
    case None
    with Cons show ?thesis by simp
  next
    case (Some col_type)
    show ?thesis
    proof (cases "rel f")
      case None
      with Some Cons show ?thesis by (simp add: Let_def)
    next
      case r: (Some r)
      obtain ref_output pending where
        "sql_for_inline_foreign_key_references w Base c f known_models style =
           Inr (ref_output, pending)"
        using base_inline_returns [where f = f and known_models = known_models and w = w and r = r
            and c = c and style = style] Cons.prems r by auto
      with Some r Cons show ?thesis
        by (cases pending) (simp_all add: Let_def del: sql_for_inline_foreign_key_references.simps)
    qed
  qed
qed

lemma unique_columns_returns:
  assumes "list_all (\<lambda>n. get_field opts n \<noteq> None) names"
  shows "\<exists>cols. unique_columns c style opts names = Inr cols"
  using assms by (induction names) auto

lemma create_unique_together_returns:
  assumes "list_all (list_all (\<lambda>n. get_field opts n \<noteq> None)) groups"
  shows "\<exists>res. create_unique_together c style opts groups out = Inr res"
  using assms
proof (induction groups arbitrary: out)
  case Nil
  show ?case by simp
next
  case (Cons g groups)
  then obtain cols where "unique_columns c style opts g = Inr cols"
    using unique_columns_returns [where opts = opts and names = g and c = c and style = style]
    by auto
  with Cons show ?case by simp
qed

lemma sql_create_model_pending:
  assumes "managed (meta w model)" and "\<not> proxy (meta w model)"
    and "sql_create_model w b c model style known_models = Inr (out, pending)"
  shows "entries_of pending t =
           map (Pair model)
             (filter (checked_pending w b c known_models style t) (local_fields (meta w model)))"
proof -
  from assms obtain table_output where
    "create_fields w b c model style known_models (local_fields (meta w model)) [] [] =
       Inr (table_output, pending)"
    by (auto simp add: sql_create_model_def Let_def ebind_def
        split: sum.splits prod.splits if_splits option.splits)
  from create_fields_pending [OF this, of t] show ?thesis
    by (simp add: entries_of_def)
qed

lemma sql_create_model_returns:
  assumes "managed (meta w model)" and "\<not> proxy (meta w model)"
    and "well_formed_model w known_models model"
  shows "\<exists>res. sql_create_model w Base c model style known_models = Inr res"
proof -
  obtain table_output pending where
    cf: "create_fields w Base c model style known_models (local_fields (meta w model)) [] [] =
       Inr (table_output, pending)"
    using create_fields_returns [where known_models = known_models and w = w
        and fs = "local_fields (meta w model)" and c = c and model = model and style = style
        and out = "[]" and pr = "[]"] assms(3) by (auto simp add: well_formed_model_def)
  obtain table_output' where
    ut: "create_unique_together c style (meta w model) (unique_together (meta w model))
           table_output = Inr table_output'"
    using create_unique_together_returns [where opts = "meta w model"
        and groups = "unique_together (meta w model)" and c = c and style = style
        and out = table_output] assms(3)
    by (auto simp add: well_formed_model_def)
  show ?thesis
    using assms cf ut
    by (auto simp add: sql_create_model_def Let_def well_formed_model_def split: option.splits)
qed


text \<open>
  C7. On the base (PostgreSQL) backend, for a field with a relation,
  \<open>sql_for_inline_foreign_key_references\<close> returns \<open>pending = True\<close> and no clause when
  the target model is not in \<open>known_models\<close>, and \<open>pending = False\<close> with one
  \<open>REFERENCES\<close> clause when it is (and the target field exists). And for a managed,
  non-proxy, well-formed model \<open>sql_create_model\<close> returns, and the entries it records
  under any key \<open>t\<close> are exactly the pairs \<open>(model, f)\<close>, in field order, of the local
  fields \<open>f\<close> on which the check ran with target \<open>t\<close> and reported pending.
\<close>

theorem inline_reference_or_pending:
  "(\<forall>r. rel field = Some r \<longrightarrow>
      (rel_to r \<notin> known_models \<longrightarrow>
         sql_for_inline_foreign_key_references w Base c field known_models style =
           Inr ([], True)) \<and>
      (\<forall>tf. rel_to r \<in> known_models \<and>
            get_field (meta w (rel_to r)) (field_name r) = Some tf \<longrightarrow>
         sql_for_inline_foreign_key_references w Base c field known_models style =
           Inr ([SQL_KEYWORD style ''REFERENCES'' @ '' '' @
                 SQL_TABLE style (compose_qualified_name c (qualified_name c (rel_to r))) @
                 '' ('' @ SQL_FIELD style (quote_name c (column tf)) @ '')'' @
                 deferrable_sql c], False))) \<and>
   (managed (meta w model) \<and> \<not> proxy (meta w model) \<and>
    well_formed_model w known_models model \<longrightarrow>
      (\<exists>out pending.
         sql_create_model w Base c model style known_models = Inr (out, pending) \<and>
         (\<forall>t. entries_of pending t =
                map (Pair model)
                  (filter (checked_pending w Base c known_models style t)
                     (local_fields (meta w model))))))"
proof (intro conjI allI impI)
  fix r
  assume "rel field = Some r" and "rel_to r \<notin> known_models"
  then show "sql_for_inline_foreign_key_references w Base c field known_models style =
      Inr ([], True)"
    by (simp add: base_sql_for_inline_foreign_key_references_def Let_def)
next
  fix r tf
  assume "rel field = Some r"
    and "rel_to r \<in> known_models \<and> get_field (meta w (rel_to r)) (field_name r) = Some tf"
  then show "sql_for_inline_foreign_key_references w Base c field known_models style =
      Inr ([SQL_KEYWORD style ''REFERENCES'' @ '' '' @
            SQL_TABLE style (compose_qualified_name c (qualified_name c (rel_to r))) @
            '' ('' @ SQL_FIELD style (quote_name c (column tf)) @ '')'' @
            deferrable_sql c], False)"
    by (simp add: base_sql_for_inline_foreign_key_references_def Let_def
        base_qualified_name_for_ref_def)
next
  assume a: "managed (meta w model) \<and> \<not> proxy (meta w model) \<and>
    well_formed_model w known_models model"
  then obtain out pending where
    r: "sql_create_model w Base c model style known_models = Inr (out, pending)"
    using sql_create_model_returns [where w = w and model = model
        and known_models = known_models and c = c and style = style]
    by auto
  have "\<forall>t. entries_of pending t =
          map (Pair model)
            (filter (checked_pending w Base c known_models style t)
               (local_fields (meta w model)))"
    using sql_create_model_pending [OF _ _ r] a by blast
  with r show "\<exists>out pending.
      sql_create_model w Base c model style known_models = Inr (out, pending) \<and>
      (\<forall>t. entries_of pending t =
             map (Pair model)
               (filter (checked_pending w Base c known_models style t)
                  (local_fields (meta w model))))"
    by blast
qed

theorem inline_reference_or_pending_witness:
  "sql_for_inline_foreign_key_references ex_world Base (ex_connection True)
     (ex_fk ''Source'' ''legacy'' ''Legacy'') {''Target''} no_style = Inr ([], True) \<and>
   sql_for_inline_foreign_key_references ex_world Base (ex_connection True)
     (ex_fk ''Source'' ''target'' ''Target'') {''Target''} no_style =
     Inr ([''REFERENCES '' @ ex_quote ''schema2'' @ ''.'' @ ex_quote ''tgt'' @ '' ('' @
           ex_quote ''id'' @ '') DEFERRABLE INITIALLY DEFERRED''], False) \<and>
   managed (meta ex_world ''Source'') \<and> \<not> proxy (meta ex_world ''Source'') \<and>
   well_formed_model ex_world {''Target''} ''Source'' \<and>
   (\<exists>out. sql_create_model ex_world Base (ex_connection True) ''Source'' no_style {''Target''} =
      Inr (out, [(''Legacy'', [(''Source'', ex_fk ''Source'' ''legacy'' ''Legacy'')])]))"
  using inline_reference_or_pending [of "ex_fk ''Source'' ''legacy'' ''Legacy''" "{''Target''}"
      ex_world "ex_connection True" no_style "''Source''"]
  by (simp add: ex_simps well_formed_model_def sql_create_model_def Let_def
      base_sql_for_inline_foreign_key_references_def qualified_name_def
      base_qualified_name_for_ref_def no_style_def str_of_def setdefault_append_def)

subsection \<open>The two passes of \<open>post_create_pending_references\<close>\<close>

lemma run_sql_as_user_single:
  assumes "connect_ok c ((settings_dict c)(''USER'' \<mapsto> user))"
    and "db_accepts c (executed c) user q"
  shows "run_sql_as_user user [q] c =
           (Inr (), c\<lparr>session := None, executed := executed c @ [(user, q)]\<rparr>)"
  using assms
  by (simp add: run_sql_as_user_def close_def cursor_def execute_def Let_def)

lemma qualified_name_frame [simp]:
  "qualified_name (c\<lparr>session := s, executed := l\<rparr>) m = qualified_name c m"
  by (simp add: qualified_name_def)

lemma resolved_schema_frame [simp]:
  "resolved_schema (c\<lparr>session := s, executed := l\<rparr>) m = resolved_schema c m"
  by (simp add: resolved_schema_def oracle_qname_converter_def qualified_name_def
      convert_schema_def Let_def)

lemma pending_statement_frame [simp]:
  "pending_statement w b (c\<lparr>session := s, executed := l\<rparr>) model style ref =
     pending_statement w b c model style ref"
proof -
  have "qualified_name_for_ref b (c\<lparr>session := s, executed := l\<rparr>) x y =
          qualified_name_for_ref b c x y" for x y
    by (cases b)
      (simp_all add: mysql_qualified_name_for_ref_def base_qualified_name_for_ref_def Let_def
        split: option.splits)
  then show ?thesis
    by (simp add: pending_statement_def qualified_name_def Let_def
        cong: option.case_cong prod.case_cong)
qed

text \<open>
  C1, amended. On the Oracle backend, let the pending references hold exactly one
  reference, from a model whose schema resolves to \<open>A\<close> to a model whose schema resolves
  to \<open>B\<close>, with \<open>A \<noteq> B\<close>; let the target model be managed and not a proxy, the
  relation name an existing target field, and the database accept both logins and both
  statements. Then \<open>post_create_pending_references\<close> (with \<open>as_sql = False\<close>) issues
  exactly two statements: first \<open>GRANT REFERENCES ON <target table> TO A\<close> in a session
  logged in as \<open>B\<close>, then the \<open>ALTER TABLE ... ADD CONSTRAINT\<close> statement in a session
  logged in as \<open>A\<close>. It returns the two statements and leaves the connection closed,
  with its settings as before. Nothing runs in any other session, so a statement runs
  as the original \<open>USER\<close> only when \<open>A\<close> or \<open>B\<close> is that user.
\<close>

theorem cross_schema_two_phase:
  assumes "resolved_schema c target = Inr B"
    and "resolved_schema c source = Inr (Some a)"
    and "Some a \<noteq> B"
    and "managed (meta w target)" and "\<not> proxy (meta w target)"
    and "rel f = Some r"
    and "get_field (meta w target) (field_name r) = Some tf"
    and "grant = ''GRANT REFERENCES ON '' @ quote_name c (db_table (meta w target)) @ '' TO '' @
                 quote_name c a"
    and "alter = ''ALTER TABLE '' @ compose_qualified_name c (qualified_name c source) @
                 '' ADD CONSTRAINT '' @
                 quote_name c (constraint_name w c (column f) (column tf)
                                 (db_table (meta w source)) (db_table (meta w target))) @
                 '' FOREIGN KEY ('' @ quote_name c (column f) @ '') REFERENCES '' @
                 compose_qualified_name c (qualified_name c target) @ '' ('' @
                 quote_name c (column tf) @ '')'' @ deferrable_sql c @ '';''"
    and "connect_ok c ((settings_dict c)(''USER'' \<mapsto> B))"
    and "db_accepts c (executed c) B grant"
    and "connect_ok c ((settings_dict c)(''USER'' \<mapsto> Some a))"
    and "db_accepts c (executed c @ [(B, grant)]) (Some a) alter"
  shows "post_create_pending_references w [(target, [(source, f)])] False c =
           (Inr [grant, alter],
            c\<lparr>session := None, executed := executed c @ [(B, grant), (Some a, alter)]\<rparr>)"
proof -
  define c1 where "c1 = c\<lparr>session := None, executed := executed c @ [(B, grant)]\<rparr>"
  have to_schema: "references_to_schema c [(target, [(source, f)])] [] =
      Inr [(B, [(target, [(source, f)])])]"
    using assms(1) by (simp add: setdefault_append_def)
  have grant_to: "grant_to_all c B [(target, [(source, f)])] [] = Inr [(target, Some a)]"
    using assms(2,3) by (simp add: set_add_def)
  have run1: "run_sql_as_user B [grant] c = (Inr (), c1)"
    unfolding c1_def using assms(10,11) by (rule run_sql_as_user_single)
  have p1: "pass1 w False [(B, [(target, [(source, f)])])] [] c = (Inr [grant], c1)"
    using grant_to run1 assms(8) by (simp add: grant_references_def)
  have from_schema: "references_from_schema c1 [(target, [(source, f)])] [] =
      Inr [(Some a, [(target, [(source, f)])])]"
    unfolding c1_def using assms(2) by simp
  have stmt: "pending_statement w Oracle c1 target no_style (source, f) = Inr alter"
    unfolding c1_def assms(9) using assms(6,7)
    by (simp add: pending_statement_def Let_def base_qualified_name_for_ref_def
        constraint_name_def no_style_def)
  have models: "pass2_models w c1 [(target, [(source, f)])] [(target, [(source, f)])] [] =
      Inr [alter]"
    using stmt assms(4,5)
    by (simp add: oracle_sql_for_pending_references_def base_sql_for_pending_references_def)
  have run2: "run_sql_as_user (Some a) [alter] c1 =
      (Inr (), c\<lparr>session := None, executed := executed c @ [(B, grant), (Some a, alter)]\<rparr>)"
    using run_sql_as_user_single [of c1 "Some a" alter] assms(12,13)
    by (simp add: c1_def)
  have p2: "pass2 w False [(Some a, [(target, [(source, f)])])] [grant] c1 =
      (Inr [grant, alter],
       c\<lparr>session := None, executed := executed c @ [(B, grant), (Some a, alter)]\<rparr>)"
    using models run2 by simp
  show ?thesis
    using to_schema p1 from_schema p2 by (simp add: post_create_pending_references_def)
qed


lemma ex_world_simps:
  "meta ex_world = ex_meta"
  "truncate_name ex_world s (Some k) = take k s"
  by (simp_all add: ex_world_def)

lemma ex_connection_simps:
  "settings_dict (ex_connection ok) = [''USER'' \<mapsto> Some ''scott'', ''NAME'' \<mapsto> Some ''xe'']"
  "session (ex_connection ok) = None"
  "executed (ex_connection ok) = []"
  "qualified_name (ex_connection ok) m =
     \<lparr>schema = db_schema (ex_meta m), table = Some (db_table (ex_meta m)), db_format = False,
      qmodel = Some m\<rparr>"
  "convert_schema (ex_connection ok) s = s"
  "quote_name (ex_connection ok) = ex_quote"
  "compose_qualified_name (ex_connection ok) = ex_compose"
  "max_name_length (ex_connection ok) = Some 30"
  "deferrable_sql (ex_connection ok) = '' DEFERRABLE INITIALLY DEFERRED''"
  "drop_foreignkey_sql (ex_connection ok) = ''DROP CONSTRAINT''"
  "connect_ok (ex_connection ok) x = True"
  "db_accepts (ex_connection ok) l u q = ok"
  by (simp_all add: ex_connection_def qualified_name_def convert_schema_def)

lemma ex_digest_sn_sn: "digest ex_world [''sn'', ''sn''] = ''128''"
  by code_simp

lemmas post_create_simps = post_create_pending_references_def grant_references_def
  run_sql_as_user_def close_def cursor_def execute_def resolved_schema_def
  oracle_qname_converter_def qualified_name_def convert_schema_def truthy_def
  setdefault_append_def set_add_def oracle_sql_for_pending_references_def
  base_sql_for_pending_references_def pending_statement_def base_qualified_name_for_ref_def
  Let_def no_style_def str_of_def

lemmas ex_eval_simps = ex_world_simps ex_meta_def ex_fields_def ex_fk_def ex_column_def
  ex_connection_def ex_compose_def

theorem cross_schema_two_phase_witness:
  "resolved_schema (ex_connection True) ''Target'' = Inr (Some ''schema2'') \<and>
   resolved_schema (ex_connection True) ''Source'' = Inr (Some ''schema1'') \<and>
   managed (meta ex_world ''Target'') \<and> \<not> proxy (meta ex_world ''Target'') \<and>
   post_create_pending_references ex_world
     [(''Target'', [(''Source'', ex_fk ''Source'' ''target'' ''Target'')])] False
     (ex_connection True) =
     (Inr [''GRANT REFERENCES ON '' @ ex_quote ''tgt'' @ '' TO '' @ ex_quote ''schema1'',
           ''ALTER TABLE '' @ ex_quote ''schema1'' @ ''.'' @ ex_quote ''src'' @
           '' ADD CONSTRAINT '' @ ex_quote ''target_id_refs_id_126'' @ '' FOREIGN KEY ('' @
           ex_quote ''target_id'' @ '') REFERENCES '' @ ex_quote ''schema2'' @ ''.'' @
           ex_quote ''tgt'' @ '' ('' @ ex_quote ''id'' @ '') DEFERRABLE INITIALLY DEFERRED;''],
      (ex_connection True)
        \<lparr>session := None,
         executed :=
           [(Some ''schema2'',
             ''GRANT REFERENCES ON '' @ ex_quote ''tgt'' @ '' TO '' @ ex_quote ''schema1''),
            (Some ''schema1'',
             ''ALTER TABLE '' @ ex_quote ''schema1'' @ ''.'' @ ex_quote ''src'' @
             '' ADD CONSTRAINT '' @ ex_quote ''target_id_refs_id_126'' @ '' FOREIGN KEY ('' @
             ex_quote ''target_id'' @ '') REFERENCES '' @ ex_quote ''schema2'' @ ''.'' @
             ex_quote ''tgt'' @ '' ('' @ ex_quote ''id'' @
             '') DEFERRABLE INITIALLY DEFERRED;'')]\<rparr>)"
proof -
  have rt: "resolved_schema (ex_connection True) ''Target'' = Inr (Some ''schema2'')"
    and rs: "resolved_schema (ex_connection True) ''Source'' = Inr (Some ''schema1'')"
    by (simp_all add: resolved_schema_def oracle_qname_converter_def qualified_name_def
        convert_schema_def truthy_def Let_def ex_connection_def ex_meta_def)
  have m: "managed (meta ex_world ''Target'')" "\<not> proxy (meta ex_world ''Target'')"
    by (simp_all add: ex_world_simps ex_meta_def)
  have n: "constraint_name ex_world (ex_connection True) ''target_id'' ''id'' ''src'' ''tgt'' =
     ''target_id_refs_id_126''"
    by (simp add: constraint_name_def ex_digest_src_tgt) (simp add: ex_world_def ex_connection_def)
  have t: "post_create_pending_references ex_world
     [(''Target'', [(''Source'', ex_fk ''Source'' ''target'' ''Target'')])] False
     (ex_connection True) =
     (Inr [''GRANT REFERENCES ON '' @ ex_quote ''tgt'' @ '' TO '' @ ex_quote ''schema1'',
           ''ALTER TABLE '' @ ex_quote ''schema1'' @ ''.'' @ ex_quote ''src'' @
           '' ADD CONSTRAINT '' @ ex_quote ''target_id_refs_id_126'' @ '' FOREIGN KEY ('' @
           ex_quote ''target_id'' @ '') REFERENCES '' @ ex_quote ''schema2'' @ ''.'' @
           ex_quote ''tgt'' @ '' ('' @ ex_quote ''id'' @ '') DEFERRABLE INITIALLY DEFERRED;''],
      (ex_connection True)
        \<lparr>session := None,
         executed := executed (ex_connection True) @
           [(Some ''schema2'',
             ''GRANT REFERENCES ON '' @ ex_quote ''tgt'' @ '' TO '' @ ex_quote ''schema1''),
            (Some ''schema1'',
             ''ALTER TABLE '' @ ex_quote ''schema1'' @ ''.'' @ ex_quote ''src'' @
             '' ADD CONSTRAINT '' @ ex_quote ''target_id_refs_id_126'' @ '' FOREIGN KEY ('' @
             ex_quote ''target_id'' @ '') REFERENCES '' @ ex_quote ''schema2'' @ ''.'' @
             ex_quote ''tgt'' @ '' ('' @ ex_quote ''id'' @
             '') DEFERRABLE INITIALLY DEFERRED;'')]\<rparr>)"
    by (rule cross_schema_two_phase [OF rt rs _ m, where
          r = "\<lparr>rel_to = ''Target'', field_name = ''id''\<rparr>"
          and tf = "ex_column ''Target'' ''id'' ''id'' ''integer'' None"])
      (simp_all add: n ex_connection_simps ex_world_simps ex_meta_def ex_fields_def ex_fk_def
        ex_column_def ex_compose_def str_of_def)
  have e: "executed (ex_connection True) = []"
    by (simp add: ex_connection_def)
  from rt rs m t show ?thesis
    by (simp add: e)
qed

text \<open>
  The claim as stated fails in two ways. With the unmanaged model \<open>Legacy\<close> as the
  target, the base method discards the entry in pass 2: the \<open>GRANT\<close> is the only
  statement issued, and there is no \<open>ALTER TABLE\<close>. And with \<open>SameName1\<close>, which has no
  schema of its own, as the target, \<open>B\<close> is the user of the connection, \<open>scott\<close>, and
  the \<open>GRANT\<close> runs under this original identity.
\<close>

theorem cross_schema_two_phase_counterexample:
  "resolved_schema (ex_connection True) ''Source'' = Inr (Some ''schema1'') \<and>
   resolved_schema (ex_connection True) ''Legacy'' = Inr (Some ''schema2'') \<and>
   post_create_pending_references ex_world
     [(''Legacy'', [(''Source'', ex_fk ''Source'' ''legacy'' ''Legacy'')])] False
     (ex_connection True) =
     (Inr [''GRANT REFERENCES ON '' @ ex_quote ''legacy'' @ '' TO '' @ ex_quote ''schema1''],
      (ex_connection True)
        \<lparr>session := None,
         executed :=
           [(Some ''schema2'',
             ''GRANT REFERENCES ON '' @ ex_quote ''legacy'' @ '' TO '' @
             ex_quote ''schema1'')]\<rparr>) \<and>
   resolved_schema (ex_connection True) ''SameName2'' = Inr (Some ''schema1'') \<and>
   resolved_schema (ex_connection True) ''SameName1'' = Inr (Some ''scott'') \<and>
   settings_dict (ex_connection True) ''USER'' = Some (Some ''scott'') \<and>
   executed (snd (post_create_pending_references ex_world
     [(''SameName1'', [(''SameName2'', ex_fk ''SameName2'' ''fk'' ''SameName1'')])] False
     (ex_connection True))) =
     [(Some ''scott'', ''GRANT REFERENCES ON '' @ ex_quote ''sn'' @ '' TO '' @ ex_quote ''schema1''),
      (Some ''schema1'',
       ''ALTER TABLE '' @ ex_quote ''schema1'' @ ''.'' @ ex_quote ''sn'' @
       '' ADD CONSTRAINT '' @ ex_quote ''fk_id_refs_id_128'' @ '' FOREIGN KEY ('' @
       ex_quote ''fk_id'' @ '') REFERENCES '' @ ex_quote ''sn'' @ '' ('' @ ex_quote ''id'' @
       '') DEFERRABLE INITIALLY DEFERRED;'')]"
  by (simp add: post_create_simps ex_eval_simps ex_digest_sn_sn)

subsection \<open>The constraint name at creation and at drop time\<close>

lemma pending_statement_name:
  assumes "resolves w model ref"
    and "qualified_name_for_ref b c (qualified_name c model) (qualified_name c (fst ref)) =
           Inr (rq ref)"
  shows "pending_statement w b c model style ref =
           Inr (SQL_KEYWORD style ''ALTER TABLE'' @ '' '' @ rq ref @ '' ADD CONSTRAINT '' @
                quote_name c (entry_constraint_name w c model ref) @ '' FOREIGN KEY ('' @
                quote_name c (column (snd ref)) @ '') REFERENCES '' @
                compose_qualified_name c (qualified_name c model) @ '' ('' @
                quote_name c (target_column w model (snd ref)) @ '')'' @ deferrable_sql c @
                '';'')"
proof -
  obtain rel_class f where ref: "ref = (rel_class, f)"
    by (cases ref)
  from assms(1) ref obtain r tf where "rel f = Some r"
    and "get_field (meta w model) (field_name r) = Some tf"
    by (auto simp add: resolves_def split: option.splits)
  with assms(2) ref show ?thesis
    by (simp add: pending_statement_def Let_def entry_constraint_name_def constraint_name_def
        target_column_def)
qed

lemma remove_statement_name:
  assumes "resolves w model ref"
  shows "remove_statement w c model style ref =
           Inr (SQL_KEYWORD style ''ALTER TABLE'' @ '' '' @
                SQL_TABLE style (compose_qualified_name c (qualified_name c (fst ref))) @
                '' '' @ SQL_KEYWORD style (drop_foreignkey_sql c) @ '' '' @
                SQL_FIELD style (quote_name c (entry_constraint_name w c model ref)) @ '';'')"
proof -
  obtain rel_class f where ref: "ref = (rel_class, f)"
    by (cases ref)
  from assms ref obtain r tf where "rel f = Some r"
    and "get_field (meta w model) (field_name r) = Some tf"
    by (auto simp add: resolves_def split: option.splits)
  with ref show ?thesis
    by (simp add: remove_statement_def Let_def entry_constraint_name_def constraint_name_def
        target_column_def)
qed

lemma pending_statements_names:
  assumes "list_all (resolves w model) entries"
    and "list_all (\<lambda>ref. qualified_name_for_ref b c (qualified_name c model)
                            (qualified_name c (fst ref)) = Inr (rq ref)) entries"
  shows "pending_statements w b c model style entries =
           Inr (map (\<lambda>ref. SQL_KEYWORD style ''ALTER TABLE'' @ '' '' @ rq ref @
                       '' ADD CONSTRAINT '' @
                       quote_name c (entry_constraint_name w c model ref) @
                       '' FOREIGN KEY ('' @ quote_name c (column (snd ref)) @
                       '') REFERENCES '' @ compose_qualified_name c (qualified_name c model) @
                       '' ('' @ quote_name c (target_column w model (snd ref)) @ '')'' @
                       deferrable_sql c @ '';'') entries)"
  using assms
proof (induction entries)
  case Nil
  show ?case by simp
next
  case (Cons ref rest)
  then show ?case
    by (simp add: pending_statement_name [where rq = rq])
qed

lemma remove_statements_names:
  assumes "list_all (resolves w model) entries"
  shows "remove_statements w c model style entries =
           Inr (map (\<lambda>ref. SQL_KEYWORD style ''ALTER TABLE'' @ '' '' @
                       SQL_TABLE style (compose_qualified_name c (qualified_name c (fst ref))) @
                       '' '' @ SQL_KEYWORD style (drop_foreignkey_sql c) @ '' '' @
                       SQL_FIELD style
                         (quote_name c (entry_constraint_name w c model ref)) @ '';'')
                  entries)"
  using assms
proof (induction entries)
  case Nil
  show ?case by simp
next
  case (Cons ref rest)
  then show ?case
    by (simp add: remove_statement_name)
qed

text \<open>
  C2. Let \<open>model\<close> be managed and not a proxy, with the entries \<open>created\<close> in the pending
  references at creation time and the entries \<open>dropped\<close> in \<open>references_to_delete\<close> at
  drop time, lists of any length and in any order, each entry a relation whose target
  field exists. Then \<open>sql_for_pending_references\<close> returns one statement for each entry
  of \<open>created\<close> and \<open>sql_remove_table_constraints\<close> one for each entry of \<open>dropped\<close>,
  in order, and the statement of an entry \<open>(rel_class, f)\<close> carries, in both, the same
  constraint name: the quoted \<open>entry_constraint_name\<close>, that is referencing column,
  \<open>_refs_\<close>, target column, \<open>_\<close>, digest of (referencing table, target table),
  truncated to the maximal name length. So the name made for a model/field pair at
  creation is the name made for it at drop, on every backend on which the reference to
  the referencing table composes (\<open>rq\<close>), and for any two styles.
\<close>

theorem constraint_name_round_trip:
  assumes "managed (meta w model)" and "\<not> proxy (meta w model)"
    and "map_of pending_references model = Some created"
    and "map_of references_to_delete model = Some dropped"
    and "list_all (resolves w model) created"
    and "list_all (resolves w model) dropped"
    and "list_all (\<lambda>ref. qualified_name_for_ref b c (qualified_name c model)
                            (qualified_name c (fst ref)) = Inr (rq ref)) created"
  shows "base_sql_for_pending_references w b c model style pending_references =
           Inr (map (\<lambda>ref. SQL_KEYWORD style ''ALTER TABLE'' @ '' '' @ rq ref @
                       '' ADD CONSTRAINT '' @
                       quote_name c (entry_constraint_name w c model ref) @
                       '' FOREIGN KEY ('' @ quote_name c (column (snd ref)) @
                       '') REFERENCES '' @ compose_qualified_name c (qualified_name c model) @
                       '' ('' @ quote_name c (target_column w model (snd ref)) @ '')'' @
                       deferrable_sql c @ '';'') created,
                AList.delete model pending_references) \<and>
         sql_remove_table_constraints w c model references_to_delete style' =
           Inr (map (\<lambda>ref. SQL_KEYWORD style' ''ALTER TABLE'' @ '' '' @
                       SQL_TABLE style' (compose_qualified_name c (qualified_name c (fst ref))) @
                       '' '' @ SQL_KEYWORD style' (drop_foreignkey_sql c) @ '' '' @
                       SQL_FIELD style'
                         (quote_name c (entry_constraint_name w c model ref)) @ '';'')
                  dropped,
                AList.delete model references_to_delete)"
  using assms
  by (simp add: base_sql_for_pending_references_def sql_remove_table_constraints_def
      pending_statements_names [where rq = rq] remove_statements_names)


theorem constraint_name_round_trip_witness:
  "managed (meta ex_world ''SameName1'') \<and> \<not> proxy (meta ex_world ''SameName1'') \<and>
   list_all (resolves ex_world ''SameName1'')
     [(''SameName2'', ex_fk ''SameName2'' ''fk'' ''SameName1''),
      (''SameName3'', ex_fk ''SameName3'' ''fk'' ''SameName1'')] \<and>
   entry_constraint_name ex_world (ex_connection True) ''SameName1''
     (''SameName2'', ex_fk ''SameName2'' ''fk'' ''SameName1'') = ''fk_id_refs_id_128'' \<and>
   entry_constraint_name ex_world (ex_connection True) ''SameName1''
     (''SameName3'', ex_fk ''SameName3'' ''fk'' ''SameName1'') = ''fk_id_refs_id_128'' \<and>
   base_sql_for_pending_references ex_world Base (ex_connection True) ''SameName1'' no_style
     [(''SameName1'', [(''SameName2'', ex_fk ''SameName2'' ''fk'' ''SameName1''),
                       (''SameName3'', ex_fk ''SameName3'' ''fk'' ''SameName1'')])] =
     Inr ([''ALTER TABLE '' @ ex_quote ''schema1'' @ ''.'' @ ex_quote ''sn'' @
           '' ADD CONSTRAINT '' @ ex_quote ''fk_id_refs_id_128'' @ '' FOREIGN KEY ('' @
           ex_quote ''fk_id'' @ '') REFERENCES '' @ ex_quote ''sn'' @ '' ('' @
           ex_quote ''id'' @ '') DEFERRABLE INITIALLY DEFERRED;'',
           ''ALTER TABLE '' @ ex_quote ''schema2'' @ ''.'' @ ex_quote ''sn'' @
           '' ADD CONSTRAINT '' @ ex_quote ''fk_id_refs_id_128'' @ '' FOREIGN KEY ('' @
           ex_quote ''fk_id'' @ '') REFERENCES '' @ ex_quote ''sn'' @ '' ('' @
           ex_quote ''id'' @ '') DEFERRABLE INITIALLY DEFERRED;''], []) \<and>
   sql_remove_table_constraints ex_world (ex_connection True) ''SameName1''
     [(''SameName1'', [(''SameName3'', ex_fk ''SameName3'' ''fk'' ''SameName1''),
                       (''SameName2'', ex_fk ''SameName2'' ''fk'' ''SameName1'')])] no_style =
     Inr ([''ALTER TABLE '' @ ex_quote ''schema2'' @ ''.'' @ ex_quote ''sn'' @
           '' DROP CONSTRAINT '' @ ex_quote ''fk_id_refs_id_128'' @ '';'',
           ''ALTER TABLE '' @ ex_quote ''schema1'' @ ''.'' @ ex_quote ''sn'' @
           '' DROP CONSTRAINT '' @ ex_quote ''fk_id_refs_id_128'' @ '';''], [])"
proof -
  have m: "managed (meta ex_world ''SameName1'')" "\<not> proxy (meta ex_world ''SameName1'')"
    by (simp_all add: ex_world_simps ex_meta_def)
  have r: "list_all (resolves ex_world ''SameName1'')
     [(''SameName2'', ex_fk ''SameName2'' ''fk'' ''SameName1''),
      (''SameName3'', ex_fk ''SameName3'' ''fk'' ''SameName1'')]"
    and r': "list_all (resolves ex_world ''SameName1'')
     [(''SameName3'', ex_fk ''SameName3'' ''fk'' ''SameName1''),
      (''SameName2'', ex_fk ''SameName2'' ''fk'' ''SameName1'')]"
    by (simp_all add: resolves_def ex_world_simps ex_meta_def ex_fields_def ex_fk_def
        ex_column_def)
  have n: "entry_constraint_name ex_world (ex_connection True) ''SameName1''
       (''SameName2'', ex_fk ''SameName2'' ''fk'' ''SameName1'') = ''fk_id_refs_id_128''"
    "entry_constraint_name ex_world (ex_connection True) ''SameName1''
       (''SameName3'', ex_fk ''SameName3'' ''fk'' ''SameName1'') = ''fk_id_refs_id_128''"
    by (simp_all add: entry_constraint_name_def constraint_name_def target_column_def
        ex_world_simps ex_connection_simps ex_meta_def ex_fields_def ex_fk_def ex_column_def
        ex_digest_sn_sn)
  have q: "list_all (\<lambda>ref. qualified_name_for_ref Base (ex_connection True)
                 (qualified_name (ex_connection True) ''SameName1'')
                 (qualified_name (ex_connection True) (fst ref)) =
               Inr (ex_compose (qualified_name (ex_connection True) (fst ref))))
     [(''SameName2'', ex_fk ''SameName2'' ''fk'' ''SameName1''),
      (''SameName3'', ex_fk ''SameName3'' ''fk'' ''SameName1'')]"
    by (simp add: base_qualified_name_for_ref_def ex_connection_simps)
  have t: "target_column ex_world ''SameName1'' (ex_fk m ''fk'' ''SameName1'') = ''id''" for m
    by (simp add: target_column_def ex_world_simps ex_meta_def ex_fields_def ex_fk_def
        ex_column_def)
  have col: "column (ex_fk m ''fk'' ''SameName1'') = ''fk_id''" for m
    by (simp add: ex_fk_def ex_column_def)
  from constraint_name_round_trip [OF m _ _ r r' q,
      of "[(''SameName1'', [(''SameName2'', ex_fk ''SameName2'' ''fk'' ''SameName1''),
                            (''SameName3'', ex_fk ''SameName3'' ''fk'' ''SameName1'')])]"
         "[(''SameName1'', [(''SameName3'', ex_fk ''SameName3'' ''fk'' ''SameName1''),
                            (''SameName2'', ex_fk ''SameName2'' ''fk'' ''SameName1'')])]"
         no_style no_style]
  have "base_sql_for_pending_references ex_world Base (ex_connection True) ''SameName1'' no_style
     [(''SameName1'', [(''SameName2'', ex_fk ''SameName2'' ''fk'' ''SameName1''),
                       (''SameName3'', ex_fk ''SameName3'' ''fk'' ''SameName1'')])] =
     Inr ([''ALTER TABLE '' @ ex_quote ''schema1'' @ ''.'' @ ex_quote ''sn'' @
           '' ADD CONSTRAINT '' @ ex_quote ''fk_id_refs_id_128'' @ '' FOREIGN KEY ('' @
           ex_quote ''fk_id'' @ '') REFERENCES '' @ ex_quote ''sn'' @ '' ('' @
           ex_quote ''id'' @ '') DEFERRABLE INITIALLY DEFERRED;'',
           ''ALTER TABLE '' @ ex_quote ''schema2'' @ ''.'' @ ex_quote ''sn'' @
           '' ADD CONSTRAINT '' @ ex_quote ''fk_id_refs_id_128'' @ '' FOREIGN KEY ('' @
           ex_quote ''fk_id'' @ '') REFERENCES '' @ ex_quote ''sn'' @ '' ('' @
           ex_quote ''id'' @ '') DEFERRABLE INITIALLY DEFERRED;''], []) \<and>
   sql_remove_table_constraints ex_world (ex_connection True) ''SameName1''
     [(''SameName1'', [(''SameName3'', ex_fk ''SameName3'' ''fk'' ''SameName1''),
                       (''SameName2'', ex_fk ''SameName2'' ''fk'' ''SameName1'')])] no_style =
     Inr ([''ALTER TABLE '' @ ex_quote ''schema2'' @ ''.'' @ ex_quote ''sn'' @
           '' DROP CONSTRAINT '' @ ex_quote ''fk_id_refs_id_128'' @ '';'',
           ''ALTER TABLE '' @ ex_quote ''schema1'' @ ''.'' @ ex_quote ''sn'' @
           '' DROP CONSTRAINT '' @ ex_quote ''fk_id_refs_id_128'' @ '';''], [])"
    by (simp add: n t col ex_connection_simps ex_compose_def ex_meta_def no_style_def
        str_of_def)
  with m r n show ?thesis
    by simp
qed

end
